theory Spec2Isabelle
  imports Complex_Main "HOL-Library.Word" "HOL-Library.Multiset"
begin

unbundle bit_operations_syntax

section \<open>The LayerNorm plugin of LayerNormPlugin.cu\<close>

text \<open>
  The development embeds \<^verbatim>\<open>cookbook/06-PluginAndParser/TensorFlow1-LayerNorm/LayerNormPlugin.cu\<close>:
  the CUDA kernel \<^verbatim>\<open>layerNormKernelV1\<close> and the host methods of \<^verbatim>\<open>LayerNormPlugin\<close> and
  \<^verbatim>\<open>LayerNormPluginV1Creator\<close>.

  Conventions.
  \<^item> A C \<^verbatim>\<open>float\<close> held by the host is its 32-bit pattern (\<open>32 word\<close>); copying, storing and
    comparing bit patterns is exact.
  \<^item> Arithmetic on floats (IEEE-754 binary32 with the device's \<^verbatim>\<open>rsqrtf\<close>) is not part of
    HOL-Library. The kernel is therefore embedded over an arbitrary carrier \<open>'a\<close> with the
    operations it uses passed in a record \<open>'a arith\<close>; a statement proved for every such record
    holds for the device's arithmetic, whatever its rounding.
  \<^item> A pointer is the memory it points to: a function from offsets to cells. Device buffers are
    indexed by \<open>int\<close>, since the kernel's \<^verbatim>\<open>int index\<close> is the two's complement reading of an
    unsigned 32-bit product and may wrap.
  \<^item> \<^verbatim>\<open>WHERE_AM_I()\<close> is a macro of the header \<^verbatim>\<open>LayerNormPlugin.h\<close>, which is not among the
    sources. It is the first statement of every method and takes no part in any value a method
    computes. Where a statement is about effects (\<open>supportsFormatCombination\<close>) it is a
    parameter of the model; elsewhere it is left out.
\<close>

subsection \<open>Device arithmetic as a parameter\<close>

record 'a arith =
  fadd :: "'a \<Rightarrow> 'a \<Rightarrow> 'a"
  fsub :: "'a \<Rightarrow> 'a \<Rightarrow> 'a"
  fmul :: "'a \<Rightarrow> 'a \<Rightarrow> 'a"
  fdiv :: "'a \<Rightarrow> 'a \<Rightarrow> 'a"
  frsqrt :: "'a \<Rightarrow> 'a"
  fofint :: "int \<Rightarrow> 'a"
  fbits :: "32 word \<Rightarrow> 'a"

text \<open>
  \<open>fadd\<close>, \<open>fsub\<close>, \<open>fmul\<close>, \<open>fdiv\<close> are \<^verbatim>\<open>+\<close>, \<^verbatim>\<open>-\<close>, \<^verbatim>\<open>*\<close>, \<^verbatim>\<open>/\<close> on \<^verbatim>\<open>float\<close>; \<open>frsqrt\<close> is
  \<^verbatim>\<open>rsqrtf\<close>; \<open>fofint\<close> is the conversion of an \<^verbatim>\<open>int\<close> operand (the literal 256) to \<^verbatim>\<open>float\<close>;
  \<open>fbits\<close> reads a 32-bit pattern as a float value (the kernel argument \<^verbatim>\<open>m_.epsilon\<close>).
\<close>

type_synonym 'a mem = "int \<Rightarrow> 'a"

subsection \<open>The kernel layerNormKernelV1 (lines 20-57)\<close>

text \<open>
  \<^verbatim>\<open>const int tx = threadIdx.x, index = blockIdx.x * 256 + threadIdx.x;\<close>
  The product and sum are unsigned 32-bit; the result initialises an \<^verbatim>\<open>int\<close>.
\<close>

definition index :: "nat \<Rightarrow> nat \<Rightarrow> int" where
  "index bx tx = sint ((word_of_nat bx :: 32 word) * 256 + word_of_nat tx)"

text \<open>\<^verbatim>\<open>float value0 = pInput[index]; float value1 = pInput[index + 128];\<close>\<close>

definition value0 :: "'a mem \<Rightarrow> nat \<Rightarrow> nat \<Rightarrow> 'a" where
  "value0 pInput bx tx = pInput (index bx tx)"

definition value1 :: "'a mem \<Rightarrow> nat \<Rightarrow> nat \<Rightarrow> 'a" where
  "value1 pInput bx tx = pInput (index bx tx + 128)"

text \<open>
  The threads of one block between two \<^verbatim>\<open>__syncthreads()\<close> barriers: every thread
  \<open>0, ..., blockDim - 1\<close> performs its step on the block's state. Between two barriers of this
  kernel no thread reads a cell another thread writes, so the steps are taken in index order.
\<close>

definition all_threads :: "nat \<Rightarrow> ('s \<Rightarrow> nat \<Rightarrow> 's) \<Rightarrow> 's \<Rightarrow> 's" where
  "all_threads blockDim step s = foldl step s [0..<blockDim]"

text \<open>
  \<^verbatim>\<open>temp[tx] = value0 + value1;\<close> on \<^verbatim>\<open>__shared__ float temp[128]\<close>, a list of 128 cells.
  The kernel is only launched with 128 threads; with more, \<^verbatim>\<open>temp[tx]\<close> would leave the array,
  and every statement below is for 128 threads.
\<close>

definition store_sum :: "'a arith \<Rightarrow> 'a mem \<Rightarrow> nat \<Rightarrow> 'a list \<Rightarrow> nat \<Rightarrow> 'a list" where
  "store_sum ops pInput bx temp tx =
     temp[tx := fadd ops (value0 pInput bx tx) (value1 pInput bx tx)]"

text \<open>\<^verbatim>\<open>if (tx < stride) { temp[tx] += temp[tx + stride]; }\<close>\<close>

definition reduce_thread :: "'a arith \<Rightarrow> nat \<Rightarrow> 'a list \<Rightarrow> nat \<Rightarrow> 'a list" where
  "reduce_thread ops stride temp tx =
     (if tx < stride then temp[tx := fadd ops (temp ! tx) (temp ! (tx + stride))] else temp)"

text \<open>
  \<^verbatim>\<open>for (int stride = 64; stride >= 1; stride /= 2) { ...; __syncthreads(); }\<close>
  The loop variable only takes positive values before the test fails, so it is a \<open>nat\<close>.
\<close>

function reduce_loop :: "'a arith \<Rightarrow> nat \<Rightarrow> nat \<Rightarrow> 'a list \<Rightarrow> 'a list" where
  "reduce_loop ops blockDim stride temp =
     (if stride \<ge> 1
      then reduce_loop ops blockDim (stride div 2)
             (all_threads blockDim (reduce_thread ops stride) temp)
      else temp)"
  by pat_completeness auto
termination
  by (relation "measure (\<lambda>(ops, blockDim, stride, temp). stride)") auto

declare reduce_loop.simps [simp del]

text \<open>
  First pass (lines 26-40): the shared array after the loads and the first reduction, and
  \<^verbatim>\<open>float mean = temp[0] / 256;\<close>. \<open>temp0\<close> is the content of the shared array when the
  block starts (uninitialised in the source).
\<close>

definition temp_after_mean :: "'a arith \<Rightarrow> nat \<Rightarrow> 'a mem \<Rightarrow> nat \<Rightarrow> 'a list \<Rightarrow> 'a list" where
  "temp_after_mean ops blockDim pInput bx temp0 =
     reduce_loop ops blockDim 64 (all_threads blockDim (store_sum ops pInput bx) temp0)"

definition block_mean :: "'a arith \<Rightarrow> nat \<Rightarrow> 'a mem \<Rightarrow> nat \<Rightarrow> 'a list \<Rightarrow> 'a" where
  "block_mean ops blockDim pInput bx temp0 =
     fdiv ops (temp_after_mean ops blockDim pInput bx temp0 ! 0) (fofint ops 256)"

text \<open>
  \<^verbatim>\<open>temp[tx] = (value0 - mean) * (value0 - mean) + (value1 - mean) * (value1 - mean);\<close>
\<close>

definition store_sqdev :: "'a arith \<Rightarrow> 'a mem \<Rightarrow> nat \<Rightarrow> 'a \<Rightarrow> 'a list \<Rightarrow> nat \<Rightarrow> 'a list" where
  "store_sqdev ops pInput bx mean temp tx =
     temp[tx := fadd ops
        (fmul ops (fsub ops (value0 pInput bx tx) mean) (fsub ops (value0 pInput bx tx) mean))
        (fmul ops (fsub ops (value1 pInput bx tx) mean) (fsub ops (value1 pInput bx tx) mean))]"

text \<open>Second pass (lines 42-53), and \<^verbatim>\<open>float var = temp[0] / 256;\<close>.\<close>

definition temp_after_var :: "'a arith \<Rightarrow> nat \<Rightarrow> 'a mem \<Rightarrow> nat \<Rightarrow> 'a list \<Rightarrow> 'a list" where
  "temp_after_var ops blockDim pInput bx temp0 =
     reduce_loop ops blockDim 64
       (all_threads blockDim
          (store_sqdev ops pInput bx (block_mean ops blockDim pInput bx temp0))
          (temp_after_mean ops blockDim pInput bx temp0))"

definition block_var :: "'a arith \<Rightarrow> nat \<Rightarrow> 'a mem \<Rightarrow> nat \<Rightarrow> 'a list \<Rightarrow> 'a" where
  "block_var ops blockDim pInput bx temp0 =
     fdiv ops (temp_after_var ops blockDim pInput bx temp0 ! 0) (fofint ops 256)"

text \<open>
  \<^verbatim>\<open>pOutput[index]       = (value0 - mean) * rsqrtf(var + epsilon);\<close>
  \<^verbatim>\<open>pOutput[index + 128] = (value1 - mean) * rsqrtf(var + epsilon);\<close>
\<close>

definition store_output ::
  "'a arith \<Rightarrow> 'a mem \<Rightarrow> nat \<Rightarrow> 'a \<Rightarrow> 'a \<Rightarrow> 'a \<Rightarrow> 'a mem \<Rightarrow> nat \<Rightarrow> 'a mem" where
  "store_output ops pInput bx mean var epsilon pOutput tx =
     (pOutput(index bx tx :=
        fmul ops (fsub ops (value0 pInput bx tx) mean) (frsqrt ops (fadd ops var epsilon))))
       (index bx tx + 128 :=
        fmul ops (fsub ops (value1 pInput bx tx) mean) (frsqrt ops (fadd ops var epsilon)))"

text \<open>One block of the grid, and the grid: blocks share nothing but global memory.\<close>

definition block_run ::
  "'a arith \<Rightarrow> nat \<Rightarrow> 'a mem \<Rightarrow> 'a \<Rightarrow> 'a list \<Rightarrow> 'a mem \<Rightarrow> nat \<Rightarrow> 'a mem" where
  "block_run ops blockDim pInput epsilon temp0 pOutput bx =
     all_threads blockDim
       (store_output ops pInput bx
          (block_mean ops blockDim pInput bx temp0)
          (block_var ops blockDim pInput bx temp0) epsilon)
       pOutput"

definition layerNormKernelV1 ::
  "'a arith \<Rightarrow> nat \<Rightarrow> nat \<Rightarrow> 'a list \<Rightarrow> 'a mem \<Rightarrow> 'a mem \<Rightarrow> 'a \<Rightarrow> 'a mem" where
  "layerNormKernelV1 ops gridDim blockDim temp0 pInput pOutput epsilon =
     foldl (block_run ops blockDim pInput epsilon temp0) pOutput [0..<gridDim]"

subsection \<open>Reading the reduction as an expression\<close>

text \<open>
  The value a reduction leaves in a slot is a binary tree of additions over the slots the
  loop started from. \<open>reduction_tree n s i\<close> is the tree of slot \<open>i\<close> when \<open>n\<close> steps remain
  and the last of them has stride \<open>s\<close>.
\<close>

datatype sumtree = Slot nat | Plus sumtree sumtree

fun eval_tree :: "('a \<Rightarrow> 'a \<Rightarrow> 'a) \<Rightarrow> 'a list \<Rightarrow> sumtree \<Rightarrow> 'a" where
  "eval_tree add xs (Slot i) = xs ! i"
| "eval_tree add xs (Plus l r) = add (eval_tree add xs l) (eval_tree add xs r)"

fun slots :: "sumtree \<Rightarrow> nat list" where
  "slots (Slot i) = [i]"
| "slots (Plus l r) = slots l @ slots r"

fun reduction_tree :: "nat \<Rightarrow> nat \<Rightarrow> nat \<Rightarrow> sumtree" where
  "reduction_tree 0 s i = Slot i"
| "reduction_tree (Suc n) s i =
     Plus (reduction_tree n (2 * s) i) (reduction_tree n (2 * s) (i + s))"

text \<open>The tree of slot 0 after the seven steps of the kernel's loop (strides 64 down to 1).\<close>

definition kernel_tree :: sumtree where
  "kernel_tree = reduction_tree 7 1 0"

subsection \<open>Types of the plugin interface\<close>

text \<open>
  The enumerations and descriptors of the TensorRT plugin interface (\<^verbatim>\<open>NvInferRuntime.h\<close>),
  as far as the methods read them. \<^verbatim>\<open>Dims\<close> is \<^verbatim>\<open>int32_t nbDims; int32_t d[MAX_DIMS];\<close>: the
  array is a function from positions to 32-bit values.
\<close>

datatype DataType = kFLOAT | kHALF | kINT8 | kINT32 | kBOOL

datatype TensorFormat =
  kLINEAR | kCHW2 | kHWC8 | kCHW4 | kCHW16 | kCHW32 | kDHWC8 | kCDHW32 | kHWC
  | kDLA_LINEAR | kDLA_HWC4 | kHWC16

record Dims =
  nbDims :: int
  d :: "nat \<Rightarrow> 32 word"

record PluginTensorDesc =
  dims :: Dims
  type :: DataType
  format :: TensorFormat

datatype PluginFieldType =
  pfFLOAT16 | pfFLOAT32 | pfFLOAT64 | pfINT8 | pfINT16 | pfINT32 | pfCHAR | pfDIMS | pfUNKNOWN

type_synonym byte = "8 word"

text \<open>
  \<^verbatim>\<open>PluginField\<close> is \<^verbatim>\<open>{const char* name; const void* data; PluginFieldType type; int32_t length;}\<close>;
  \<open>data\<close> is the host memory the pointer addresses, byte by byte.
\<close>

record PluginField =
  name :: string
  data :: "nat \<Rightarrow> byte"
  type_f :: PluginFieldType
  length_f :: int

text \<open>\<^verbatim>\<open>PluginFieldCollection\<close> is \<^verbatim>\<open>{int32_t nbFields; const PluginField* fields;}\<close>.\<close>

record PluginFieldCollection =
  nbFields :: int
  fields_c :: "nat \<Rightarrow> PluginField"

subsection \<open>The plugin object\<close>

text \<open>
  Modelled from the spec: the member \<^verbatim>\<open>m_\<close> is declared in \<^verbatim>\<open>LayerNormPlugin.h\<close>, which is
  not among the sources. By the spec the Configuration is "a single scalar, the stability
  offset", persisted as "exactly one little-endian 32-bit IEEE-754 float", so \<^verbatim>\<open>sizeof(m_)\<close>
  is 4 and the object representation of \<^verbatim>\<open>m_\<close> is the four bytes of \<open>epsilon\<close>, lowest first.
\<close>

record Configuration =
  epsilon :: "32 word"

definition sizeof_m :: nat where
  "sizeof_m = 4"

definition object_bytes :: "Configuration \<Rightarrow> byte list" where
  "object_bytes c =
     [ucast (epsilon c), ucast (drop_bit 8 (epsilon c)),
      ucast (drop_bit 16 (epsilon c)), ucast (drop_bit 24 (epsilon c))]"

definition float_of_bytes :: "byte list \<Rightarrow> 32 word" where
  "float_of_bytes bs =
     ucast (bs ! 0) OR push_bit 8 (ucast (bs ! 1)) OR push_bit 16 (ucast (bs ! 2))
       OR push_bit 24 (ucast (bs ! 3))"

definition object_of_bytes :: "byte list \<Rightarrow> Configuration" where
  "object_of_bytes bs = \<lparr>epsilon = float_of_bytes bs\<rparr>"

text \<open>\<^verbatim>\<open>memcpy(dst, src, n)\<close>: the \<open>n\<close> bytes read from a source, and a destination after the copy.\<close>

definition memcpy_read :: "(nat \<Rightarrow> byte) \<Rightarrow> nat \<Rightarrow> byte list" where
  "memcpy_read src n = map src [0..<n]"

definition memcpy_write :: "(nat \<Rightarrow> byte) \<Rightarrow> byte list \<Rightarrow> (nat \<Rightarrow> byte)" where
  "memcpy_write dst bs = (\<lambda>i. if i < length bs then bs ! i else dst i)"

text \<open>
  The object: \<^verbatim>\<open>name_\<close>, \<^verbatim>\<open>namespace_\<close> and \<^verbatim>\<open>m_\<close> (a trailing underscore is not an Isabelle
  name, hence the suffix).
\<close>

record LayerNormPlugin =
  name_member :: string
  namespace_member :: string
  m_member :: Configuration

text \<open>\<^verbatim>\<open>LayerNormPlugin(const std::string &name, float epsilon)\<close> (lines 62-67).\<close>

definition LayerNormPlugin_new :: "string \<Rightarrow> 32 word \<Rightarrow> LayerNormPlugin" where
  "LayerNormPlugin_new nm eps =
     \<lparr>name_member = nm, namespace_member = [], m_member = \<lparr>epsilon = eps\<rparr>\<rparr>"

text \<open>
  \<^verbatim>\<open>LayerNormPlugin(const std::string &name, const void *buffer, size_t length)\<close> (lines 69-74):
  \<^verbatim>\<open>memcpy(&m_, buffer, sizeof(m_));\<close>
\<close>

definition LayerNormPlugin_deserialize ::
  "string \<Rightarrow> (nat \<Rightarrow> byte) \<Rightarrow> nat \<Rightarrow> LayerNormPlugin" where
  "LayerNormPlugin_deserialize nm buffer len =
     \<lparr>name_member = nm, namespace_member = [],
      m_member = object_of_bytes (memcpy_read buffer sizeof_m)\<rparr>"

text \<open>\<^verbatim>\<open>setPluginNamespace\<close> (lines 175-180) and \<^verbatim>\<open>clone\<close> (lines 81-87).\<close>

definition setPluginNamespace :: "LayerNormPlugin \<Rightarrow> string \<Rightarrow> LayerNormPlugin" where
  "setPluginNamespace this pluginNamespace = this\<lparr>namespace_member := pluginNamespace\<rparr>"

definition clone :: "LayerNormPlugin \<Rightarrow> LayerNormPlugin" where
  "clone this =
     setPluginNamespace
       (LayerNormPlugin_deserialize (name_member this)
          (\<lambda>i. object_bytes (m_member this) ! i) sizeof_m)
       (namespace_member this)"

text \<open>\<^verbatim>\<open>getNbOutputs\<close> (lines 89-93).\<close>

definition getNbOutputs :: "LayerNormPlugin \<Rightarrow> int" where
  "getNbOutputs this = 1"

text \<open>\<^verbatim>\<open>getSerializationSize\<close> and \<^verbatim>\<open>serialize\<close> (lines 162-173).\<close>

definition getSerializationSize :: "LayerNormPlugin \<Rightarrow> nat" where
  "getSerializationSize this = sizeof_m"

definition serialize :: "LayerNormPlugin \<Rightarrow> (nat \<Rightarrow> byte) \<Rightarrow> (nat \<Rightarrow> byte)" where
  "serialize this buffer = memcpy_write buffer (take sizeof_m (object_bytes (m_member this)))"

text \<open>
  \<^verbatim>\<open>supportsFormatCombination\<close> (lines 107-120). The method is not \<^verbatim>\<open>const\<close>: it gets the
  object and returns it with the result. \<open>where_am_i\<close> is what \<^verbatim>\<open>WHERE_AM_I()\<close> does to the
  rest of the host's state \<open>h\<close>.
\<close>

definition supportsFormatCombination ::
  "('h \<Rightarrow> 'h) \<Rightarrow> LayerNormPlugin \<times> 'h \<Rightarrow> int \<Rightarrow> (nat \<Rightarrow> PluginTensorDesc) \<Rightarrow> int \<Rightarrow> int
     \<Rightarrow> bool \<times> LayerNormPlugin \<times> 'h" where
  "supportsFormatCombination where_am_i st pos inOut nbInputs nbOutputs =
     (let this = fst st; h = where_am_i (snd st) in
      if pos = 0 then
        (type (inOut 0) = kFLOAT \<and> format (inOut 0) = kLINEAR, this, h)
      else if pos = 1 then
        (type (inOut 1) = type (inOut 0) \<and> format (inOut 1) = format (inOut 0), this, h)
      else (False, this, h))"

subsection \<open>The launch\<close>

text \<open>
  The CUDA runtime, as far as \<^verbatim>\<open>enqueue\<close> meets it. A launch
  \<^verbatim>\<open>kernel<<<grid, block, shared, stream>>>(...)\<close> is a call that returns no value: it is
  appended to the calls issued, and the runtime either accepts it (the kernel's effect on
  the output buffer takes place in stream order) or records an error, which only a later
  \<^verbatim>\<open>cudaGetLastError\<close> would show. Which of the two happens is the runtime's choice \<open>driver\<close>,
  a parameter.
\<close>

datatype cudaError_t = cudaSuccess | cudaErrorInvalidConfiguration | cudaErrorLaunchFailure

record launch_cfg =
  gridDim :: nat
  blockDim :: nat
  sharedMem :: nat
  stream_of :: nat

datatype cuda_call = KernelLaunch launch_cfg | StreamSynchronize nat | DeviceSynchronize

record 'a gpu =
  outputs0 :: "'a mem"
  lastError :: cudaError_t
  calls :: "cuda_call list"

definition cudaLaunchKernel ::
  "(launch_cfg \<Rightarrow> cudaError_t) \<Rightarrow> launch_cfg \<Rightarrow> (nat \<Rightarrow> nat \<Rightarrow> 'a mem \<Rightarrow> 'a mem)
     \<Rightarrow> 'a gpu \<Rightarrow> 'a gpu" where
  "cudaLaunchKernel driver cfg kern g =
     (if driver cfg = cudaSuccess
      then g\<lparr>outputs0 := kern (gridDim cfg) (blockDim cfg) (outputs0 g),
             calls := calls g @ [KernelLaunch cfg]\<rparr>
      else g\<lparr>lastError := driver cfg, calls := calls g @ [KernelLaunch cfg]\<rparr>)"

text \<open>
  \<^verbatim>\<open>enqueue\<close> (lines 134-141). \<^verbatim>\<open>nBlock\<close> is an \<^verbatim>\<open>int\<close> product of two \<^verbatim>\<open>int32_t\<close>: 32-bit
  multiplication. The launch takes it as the x-dimension of a \<^verbatim>\<open>dim3\<close>, an \<^verbatim>\<open>unsigned int\<close>: the
  unsigned reading of the same 32 bits. \<open>inputs0\<close> is the buffer \<^verbatim>\<open>inputs[0]\<close>, the buffer
  \<^verbatim>\<open>outputs[0]\<close> is \<open>outputs0\<close> of the device state; \<^verbatim>\<open>outputDesc\<close> and \<^verbatim>\<open>workspace\<close> are not
  read. The result is the returned status and the device state.
\<close>

definition enqueue ::
  "'a arith \<Rightarrow> (launch_cfg \<Rightarrow> cudaError_t) \<Rightarrow> 'a list \<Rightarrow> LayerNormPlugin
     \<Rightarrow> (nat \<Rightarrow> PluginTensorDesc) \<Rightarrow> (nat \<Rightarrow> PluginTensorDesc) \<Rightarrow> 'a mem \<Rightarrow> nat
     \<Rightarrow> 'a gpu \<Rightarrow> int \<times> 'a gpu" where
  "enqueue ops driver temp0 this inputDesc outputDesc inputs0 stream g =
     (let nBlock = d (dims (inputDesc 0)) 0 * d (dims (inputDesc 0)) 1 in
      (0, cudaLaunchKernel driver
            \<lparr>gridDim = unat nBlock, blockDim = 128, sharedMem = 0, stream_of = stream\<rparr>
            (\<lambda>grid block pOutput.
               layerNormKernelV1 ops grid block temp0 inputs0 pOutput
                 (fbits ops (epsilon (m_member this))))
            g))"

subsection \<open>The creator\<close>

text \<open>
  \<^verbatim>\<open>createPlugin\<close> (lines 230-244). \<^verbatim>\<open>parameterMap\<close> maps a field name to the address of a
  local variable; the only local is \<^verbatim>\<open>epsilon\<close>, initialised to \<^verbatim>\<open>1.0e-5f\<close>, whose bit pattern
  is \<open>0x3727C5AC\<close>. \<^verbatim>\<open>*reinterpret_cast<const float *>(fc->fields[i].data)\<close> reads the four
  bytes at \<open>data\<close> as a float, whatever the field's declared type and length.
\<close>

datatype local_var = Var_epsilon

definition parameterMap :: "string \<rightharpoonup> local_var" where
  "parameterMap = [''epsilon'' \<mapsto> Var_epsilon]"

definition createPlugin_step :: "(local_var \<Rightarrow> 32 word) \<Rightarrow> PluginField \<Rightarrow> (local_var \<Rightarrow> 32 word)" where
  "createPlugin_step locals f =
     (case parameterMap (name f) of
        None \<Rightarrow> locals
      | Some v \<Rightarrow> locals(v := float_of_bytes (memcpy_read (data f) 4)))"

definition createPlugin :: "string \<Rightarrow> PluginFieldCollection \<Rightarrow> LayerNormPlugin" where
  "createPlugin nm fc =
     LayerNormPlugin_new nm
       (foldl createPlugin_step (\<lambda>v. 0x3727C5AC) (map (fields_c fc) [0..<nat (nbFields fc)])
          Var_epsilon)"

text \<open>\<^verbatim>\<open>deserializePlugin\<close> (lines 246-250).\<close>

definition deserializePlugin :: "string \<Rightarrow> (nat \<Rightarrow> byte) \<Rightarrow> nat \<Rightarrow> LayerNormPlugin" where
  "deserializePlugin nm serialData serialLength =
     LayerNormPlugin_deserialize nm serialData serialLength"

subsection \<open>The spec's group count\<close>

text \<open>
  The spec's words for the number of groups: "the product of all leading (non-feature)
  dimensions" of the input, that is of every dimension but the last.
\<close>

definition leading_dims_product :: "Dims \<Rightarrow> int" where
  "leading_dims_product ds = prod_list (map (\<lambda>i. sint (d ds i)) [0..<nat (nbDims ds - 1)])"

subsection \<open>The single-pass variance of the spec\<close>

text \<open>
  The formula the spec excludes, \<^verbatim>\<open>E[x^2] - E[x]^2\<close>, in the arithmetic \<open>ops\<close>: the mean of
  the squares minus the square of the mean, each sum accumulated from zero.
\<close>

definition single_pass_var :: "'a arith \<Rightarrow> 'a list \<Rightarrow> 'a" where
  "single_pass_var ops xs =
     (let n = fofint ops (int (length xs));
          mean_sq = fdiv ops (foldl (fadd ops) (fofint ops 0) (map (\<lambda>x. fmul ops x x) xs)) n;
          mean = fdiv ops (foldl (fadd ops) (fofint ops 0) xs) n
      in fsub ops mean_sq (fmul ops mean mean))"

subsection \<open>The contract in exact arithmetic\<close>

text \<open>
  The spec's contract for one vector \<open>x\<close> of 256 reals: the arithmetic mean, the population
  variance (divisor 256) and the normalised element. \<open>exact_arith\<close> says that a record of
  operations on the reals computes without rounding, with \<^verbatim>\<open>rsqrtf\<close> the reciprocal of the
  square root.
\<close>

definition vector_mean :: "(nat \<Rightarrow> real) \<Rightarrow> real" where
  "vector_mean x = (\<Sum>i<256. x i) / 256"

definition vector_var :: "(nat \<Rightarrow> real) \<Rightarrow> real" where
  "vector_var x = (\<Sum>i<256. (x i - vector_mean x)\<^sup>2) / 256"

definition layer_norm :: "real \<Rightarrow> (nat \<Rightarrow> real) \<Rightarrow> nat \<Rightarrow> real" where
  "layer_norm eps x i = (x i - vector_mean x) / sqrt (vector_var x + eps)"

definition exact_arith :: "real arith \<Rightarrow> bool" where
  "exact_arith ops \<longleftrightarrow>
     fadd ops = (+) \<and> fsub ops = (-) \<and> fmul ops = (*) \<and> fdiv ops = (/) \<and>
     fofint ops = of_int \<and> frsqrt ops = (\<lambda>y. 1 / sqrt y)"

subsection \<open>Example values\<close>

text \<open>
  Concrete values for instances: an inexact arithmetic (integers, with the division and the
  reciprocal square root rounding down), a runtime that refuses an empty or oversized grid, a
  device with nothing issued, tensor descriptors and field collections given by lists, and two
  inputs whose first vector is 384, respectively 10, followed by zeros, with zeros elsewhere.
\<close>

definition int_arith :: "int arith" where
  "int_arith = \<lparr>fadd = (+), fsub = (-), fmul = (*), fdiv = (div),
                 frsqrt = (\<lambda>x. if x = 1 then 1 else 0), fofint = (\<lambda>k. k), fbits = sint\<rparr>"

definition rejecting_driver :: "launch_cfg \<Rightarrow> cudaError_t" where
  "rejecting_driver cfg =
     (if gridDim cfg < 1 \<or> 2 ^ 31 - 1 < gridDim cfg then cudaErrorInvalidConfiguration
      else cudaSuccess)"

definition idle_gpu :: "int gpu" where
  "idle_gpu = \<lparr>outputs0 = (\<lambda>a. 0), lastError = cudaSuccess, calls = []\<rparr>"

definition tensor_desc :: "int \<Rightarrow> 32 word list \<Rightarrow> PluginTensorDesc" where
  "tensor_desc n ds =
     \<lparr>dims = \<lparr>nbDims = n, d = (\<lambda>i. if i < length ds then ds ! i else 0)\<rparr>,
      type = kFLOAT, format = kLINEAR\<rparr>"

definition field_of :: "string \<Rightarrow> byte list \<Rightarrow> PluginField" where
  "field_of s bs = \<lparr>name = s, data = (\<lambda>i. if i < length bs then bs ! i else 0),
                     type_f = pfFLOAT32, length_f = 1\<rparr>"

definition collection_of :: "PluginField list \<Rightarrow> PluginFieldCollection" where
  "collection_of fs = \<lparr>nbFields = int (length fs), fields_c = (\<lambda>i. fs ! i)\<rparr>"

definition float_linear :: PluginTensorDesc where
  "float_linear = \<lparr>dims = \<lparr>nbDims = 3, d = (\<lambda>i. 0)\<rparr>, type = kFLOAT, format = kLINEAR\<rparr>"

definition spike :: "int mem" where
  "spike a = (if a = 0 then 384 else 0)"

definition bump :: "int mem" where
  "bump a = (if a = 0 then 10 else 0)"

section \<open>Auxiliary facts\<close>

subsection \<open>The reduction loop\<close>

lemma all_threads_Suc:
  "all_threads (Suc n) step s = step (all_threads n step s) n"
  by (simp add: all_threads_def)

lemma all_threads_0: "all_threads 0 step s = s"
  by (simp add: all_threads_def)

lemma reduce_step_inv:
  "2 * stride \<le> length temp \<Longrightarrow>
   length (all_threads n (reduce_thread ops stride) temp) = length temp \<and>
   (\<forall>i < length temp. all_threads n (reduce_thread ops stride) temp ! i =
      (if i < stride \<and> i < n then fadd ops (temp ! i) (temp ! (i + stride)) else temp ! i))"
proof (induction n)
  case 0
  then show ?case by (simp add: all_threads_0)
next
  case (Suc n)
  let ?r = "all_threads n (reduce_thread ops stride) temp"
  from Suc have len: "length ?r = length temp"
    and nth: "\<And>i. i < length temp \<Longrightarrow> ?r ! i =
      (if i < stride \<and> i < n then fadd ops (temp ! i) (temp ! (i + stride)) else temp ! i)"
    by auto
  show ?case
  proof (cases "n < stride")
    case True
    with Suc.prems have a: "n < length temp" "n + stride < length temp" by auto
    have rn: "?r ! n = temp ! n" using nth[OF a(1)] by simp
    have rs: "?r ! (n + stride) = temp ! (n + stride)" using nth[OF a(2)] by simp
    have step: "all_threads (Suc n) (reduce_thread ops stride) temp =
                ?r[n := fadd ops (temp ! n) (temp ! (n + stride))]"
      using True by (simp add: all_threads_Suc reduce_thread_def rn rs)
    show ?thesis
      unfolding step using True len a
      by (auto simp: nth nth_list_update less_Suc_eq)
  next
    case False
    have step: "all_threads (Suc n) (reduce_thread ops stride) temp = ?r"
      using False by (simp add: all_threads_Suc reduce_thread_def)
    show ?thesis
      unfolding step using False len nth by auto
  qed
qed

lemma reduce_step_length:
  "2 * stride \<le> length temp \<Longrightarrow>
   length (all_threads n (reduce_thread ops stride) temp) = length temp"
  using reduce_step_inv by blast

lemma reduce_step_nth:
  "2 * stride \<le> length temp \<Longrightarrow> stride \<le> n \<Longrightarrow> i < length temp \<Longrightarrow>
   all_threads n (reduce_thread ops stride) temp ! i =
     (if i < stride then fadd ops (temp ! i) (temp ! (i + stride)) else temp ! i)"
  using reduce_step_inv[of stride temp n ops] by auto

lemma set_slots_reduction_tree:
  "set (slots (reduction_tree n s i)) = (\<lambda>j. i + j * s) ` {..<2 ^ n}"
proof (induction n arbitrary: s i)
  case 0
  then show ?case by (simp add: lessThan_Suc)
next
  case (Suc n)
  have "(\<lambda>j. i + j * s) ` {..<2 ^ Suc n} =
        (\<lambda>j. i + j * (2 * s)) ` {..<2 ^ n} \<union> (\<lambda>j. i + s + j * (2 * s)) ` {..<2 ^ n}"
    (is "?L = ?A \<union> ?B")
  proof (intro set_eqI iffI)
    fix x assume "x \<in> ?L"
    then obtain j where j: "j < 2 ^ Suc n" "x = i + j * s" by auto
    show "x \<in> ?A \<union> ?B"
    proof (cases "even j")
      case True
      then obtain k where "j = 2 * k" by (auto elim: evenE)
      with j show ?thesis by (auto intro!: image_eqI[of _ _ k])
    next
      case False
      then obtain k where "j = 2 * k + 1" by (auto elim: oddE)
      with j show ?thesis by (auto intro!: image_eqI[of _ _ k])
    qed
  next
    fix x assume "x \<in> ?A \<union> ?B"
    then show "x \<in> ?L"
    proof
      assume "x \<in> ?A"
      then obtain k where "k < 2 ^ n" "x = i + k * (2 * s)" by auto
      then show ?thesis by (auto intro!: image_eqI[of _ _ "2 * k"])
    next
      assume "x \<in> ?B"
      then obtain k where "k < 2 ^ n" "x = i + s + k * (2 * s)" by auto
      then show ?thesis by (auto intro!: image_eqI[of _ _ "2 * k + 1"])
    qed
  qed
  then show ?case by (simp add: Suc.IH)
qed

lemma length_slots_reduction_tree: "length (slots (reduction_tree n s i)) = 2 ^ n"
  by (induction n arbitrary: s i) auto

lemma eval_reduce_step:
  "2 * S \<le> length temp \<Longrightarrow> S \<le> nT \<Longrightarrow> s * 2 ^ n = S \<Longrightarrow> i < s \<Longrightarrow>
   eval_tree (fadd ops) (all_threads nT (reduce_thread ops S) temp) (reduction_tree n s i) =
   eval_tree (fadd ops) temp (reduction_tree (Suc n) s i)"
proof (induction n arbitrary: s i)
  case 0
  then show ?case by (simp add: reduce_step_nth)
next
  case (Suc n)
  have a: "2 * s * 2 ^ n = S" using Suc.prems by simp
  have "eval_tree (fadd ops) (all_threads nT (reduce_thread ops S) temp) (reduction_tree n (2 * s) i) =
        eval_tree (fadd ops) temp (reduction_tree (Suc n) (2 * s) i)"
    using Suc.IH[OF Suc.prems(1,2) a, of i] Suc.prems(4) by simp
  moreover have "eval_tree (fadd ops) (all_threads nT (reduce_thread ops S) temp) (reduction_tree n (2 * s) (i + s)) =
        eval_tree (fadd ops) temp (reduction_tree (Suc n) (2 * s) (i + s))"
    using Suc.IH[OF Suc.prems(1,2) a, of "i + s"] Suc.prems(4) by simp
  ultimately show ?case by simp
qed

lemma reduce_loop_tree:
  "2 * 2 ^ k \<le> length temp \<Longrightarrow> 2 ^ k \<le> nT \<Longrightarrow>
   reduce_loop ops nT (2 ^ k) temp ! 0 = eval_tree (fadd ops) temp (reduction_tree (Suc k) 1 0)"
proof (induction k arbitrary: temp)
  case 0
  have "reduce_loop ops nT (2 ^ 0) temp = all_threads nT (reduce_thread ops 1) temp"
    by (subst reduce_loop.simps) (simp add: reduce_loop.simps[of _ _ 0])
  moreover have "all_threads nT (reduce_thread ops 1) temp ! 0 = fadd ops (temp ! 0) (temp ! 1)"
  proof -
    have "2 * 1 \<le> length temp" "1 \<le> nT" "0 < length temp" using 0 by auto
    from reduce_step_nth[OF this, of ops] show ?thesis by simp
  qed
  ultimately show ?case by simp
next
  case (Suc k)
  let ?t = "all_threads nT (reduce_thread ops (2 ^ Suc k)) temp"
  have len: "length ?t = length temp" using Suc.prems by (simp add: reduce_step_length)
  have "reduce_loop ops nT (2 ^ Suc k) temp = reduce_loop ops nT (2 ^ k) ?t"
    by (subst reduce_loop.simps) simp
  also have "\<dots> ! 0 = eval_tree (fadd ops) ?t (reduction_tree (Suc k) 1 0)"
    using Suc.IH[of ?t] Suc.prems len by simp
  also have "\<dots> = eval_tree (fadd ops) temp (reduction_tree (Suc (Suc k)) 1 0)"
    using eval_reduce_step[of "2 ^ Suc k" temp nT 1 "Suc k" 0 ops] Suc.prems by simp
  finally show ?case .
qed

lemma eval_tree_sum_list:
  fixes xs :: "'a::comm_monoid_add list"
  shows "eval_tree (+) xs t = sum_list (map ((!) xs) (slots t))"
  by (induction t) auto

lemma slots_final: "mset (slots (reduction_tree 7 1 0)) = mset [0..<128]"
proof -
  have "distinct (slots (reduction_tree 7 1 0))"
    by (rule card_distinct) (simp add: set_slots_reduction_tree length_slots_reduction_tree card_image inj_on_def)
  moreover have "set (slots (reduction_tree 7 1 0)) = set [0..<128]"
    by (simp add: set_slots_reduction_tree lessThan_atLeast0)
  ultimately show ?thesis
    using set_eq_iff_mset_eq_distinct[of "slots (reduction_tree 7 1 0)" "[0..<128]"] distinct_upt
    by blast
qed

subsection \<open>Words and bytes\<close>

lemma sint_small: "n < 2 ^ 31 \<Longrightarrow> sint (word_of_nat n :: 32 word) = int n"
  using sint_sbintrunc'[of "int n", where 'a=32]
  by (simp add: signed_take_bit_int_eq_self)

lemma index_small:
  assumes "bx < 2 ^ 23" "tx < 256"
  shows "index bx tx = int bx * 256 + int tx"
proof -
  have "bx * 256 + tx < 2 ^ 31" using assms by simp
  then have "sint (word_of_nat (bx * 256 + tx) :: 32 word) = int (bx * 256 + tx)"
    by (rule sint_small)
  then show ?thesis by (simp add: index_def)
qed

lemma bytes_roundtrip: "float_of_bytes (object_bytes c) = epsilon c"
  unfolding float_of_bytes_def object_bytes_def
proof (simp, rule bit_word_eqI)
  fix n assume "n < LENGTH(32)"
  then consider "n < 8" | "8 \<le> n" "n < 16" | "16 \<le> n" "n < 24" | "24 \<le> n" "n < 32"
    by fastforce
  then show "bit (ucast (ucast (epsilon c) :: byte) OR
            push_bit 8 (ucast (ucast (drop_bit 8 (epsilon c)) :: byte)) OR
            push_bit 16 (ucast (ucast (drop_bit 16 (epsilon c)) :: byte)) OR
            push_bit 24 (ucast (ucast (drop_bit 24 (epsilon c)) :: byte)) :: 32 word) n = bit (epsilon c) n"
    by cases (auto simp: bit_simps)
qed

lemma memcpy_read_4: "memcpy_read src 4 = [src 0, src 1, src 2, src 3]"
  by (simp add: memcpy_read_def upt_rec numeral_eq_Suc)


subsection \<open>The host methods\<close>

lemma sint_nonneg_uint:
  fixes a :: "32 word"
  assumes "0 \<le> sint a"
  shows "sint a = uint a"
proof -
  have "sint a < 2 ^ 32" using sint_lt[of a] by simp
  then have "take_bit 32 (sint a) = sint a"
    using assms by (simp add: take_bit_int_eq_self)
  then show ?thesis using uint_sint[of a] by simp
qed

lemma unat_mult_small:
  fixes a b :: "32 word"
  assumes "0 \<le> sint a" "0 \<le> sint b" "sint a * sint b < 2 ^ 31"
  shows "int (unat (a * b)) = sint a * sint b"
proof -
  have a: "sint a = uint a" and b: "sint b = uint b"
    using assms(1,2) by (simp_all add: sint_nonneg_uint)
  have "uint a * uint b < 2 ^ 32"
    using assms(3) a b by simp
  then have "uint (a * b) = uint a * uint b"
    by (simp add: uint_word_ariths mod_pos_pos_trivial)
  then show ?thesis by (simp add: a b)
qed

lemma enqueue_calls:
  "calls (snd (enqueue ops driver temp0 this inputDesc outputDesc inputs0 stream g)) =
     calls g @ [KernelLaunch \<lparr>gridDim = unat (d (dims (inputDesc 0)) 0 * d (dims (inputDesc 0)) 1),
                               blockDim = 128, sharedMem = 0, stream_of = stream\<rparr>]"
  by (simp add: enqueue_def cudaLaunchKernel_def Let_def)

lemma clone_same:
  "m_member (clone this) = m_member this \<and> name_member (clone this) = name_member this
   \<and> namespace_member (clone this) = namespace_member this"
  using bytes_roundtrip[of "m_member this"]
  by (simp add: clone_def setPluginNamespace_def LayerNormPlugin_deserialize_def sizeof_m_def
      memcpy_read_4 object_of_bytes_def object_bytes_def)

lemma parameterMap_eq:
  "parameterMap s = (if s = ''epsilon'' then Some Var_epsilon else None)"
  by (simp add: parameterMap_def)

lemma createPlugin_fold:
  "foldl createPlugin_step locals fs Var_epsilon =
     (if filter (\<lambda>f. name f = ''epsilon'') fs = [] then locals Var_epsilon
      else float_of_bytes (memcpy_read (data (last (filter (\<lambda>f. name f = ''epsilon'') fs))) 4))"
proof (induction fs rule: rev_induct)
  case Nil
  then show ?case by simp
next
  case (snoc f fs)
  then show ?case
    by (auto simp: createPlugin_step_def parameterMap_eq)
qed

subsection \<open>The two passes of a block\<close>

lemma store_phase_inv:
  "n \<le> length temp \<Longrightarrow>
   all_threads n (\<lambda>tmp tx. tmp[tx := f tx]) temp = map f [0..<n] @ drop n temp"
proof (induction n)
  case 0
  then show ?case by (simp add: all_threads_0)
next
  case (Suc n)
  then have n: "n < length temp" by simp
  have "all_threads (Suc n) (\<lambda>tmp tx. tmp[tx := f tx]) temp =
        (map f [0..<n] @ drop n temp)[n := f n]"
    using Suc by (simp add: all_threads_Suc)
  also have "\<dots> = map f [0..<n] @ (drop n temp)[0 := f n]"
    by (simp add: list_update_append)
  also have "drop n temp = temp ! n # drop (Suc n) temp"
    using n by (simp add: Cons_nth_drop_Suc)
  finally show ?case by simp
qed

lemma store_phase:
  "length temp = n \<Longrightarrow> all_threads n (\<lambda>tmp tx. tmp[tx := f tx]) temp = map f [0..<n]"
  by (simp add: store_phase_inv)

lemma store_sum_phase:
  "length temp0 = 128 \<Longrightarrow>
   all_threads 128 (store_sum ops pInput bx) temp0 =
     map (\<lambda>tx. fadd ops (value0 pInput bx tx) (value1 pInput bx tx)) [0..<128]"
  using store_phase[of temp0 128 "\<lambda>tx. fadd ops (value0 pInput bx tx) (value1 pInput bx tx)"]
  by (simp add: store_sum_def[abs_def])

lemma reduce_loop_length:
  "128 \<le> length temp \<Longrightarrow> length (reduce_loop ops nT 64 temp) = length temp"
  by (simp add: reduce_loop.simps reduce_step_length)

lemma reduce_loop_unrolled:
  "reduce_loop ops nT 64 temp =
     all_threads nT (reduce_thread ops 1)
      (all_threads nT (reduce_thread ops 2)
        (all_threads nT (reduce_thread ops 4)
          (all_threads nT (reduce_thread ops 8)
            (all_threads nT (reduce_thread ops 16)
              (all_threads nT (reduce_thread ops 32)
                (all_threads nT (reduce_thread ops 64) temp))))))"
  by (simp add: reduce_loop.simps)

lemma slots_kernel_tree: "mset (slots kernel_tree) = mset [0..<128]"
  unfolding kernel_tree_def by (rule slots_final)

lemma reduce_loop_64_tree:
  assumes "length temp = 128"
  shows "reduce_loop ops 128 64 temp ! 0 = eval_tree (fadd ops) temp kernel_tree"
  using reduce_loop_tree[of 6 temp 128 ops] assms by (simp add: eval_nat_numeral kernel_tree_def)

lemma eval_tree_exact:
  fixes temp :: "'a::comm_monoid_add list"
  assumes "length temp = 128"
  shows "eval_tree (+) temp kernel_tree = sum_list temp"
proof -
  have "eval_tree (+) temp kernel_tree =
        sum_mset (image_mset ((!) temp) (mset (slots kernel_tree)))"
    by (simp add: eval_tree_sum_list flip: sum_mset_sum_list)
  also have "\<dots> = sum_list (map ((!) temp) [0..<128])"
    by (simp only: slots_kernel_tree) (simp flip: sum_mset_sum_list)
  also have "map ((!) temp) [0..<128] = temp"
    using assms map_nth[of temp] by simp
  finally show ?thesis .
qed

lemma sum_halves:
  fixes x :: "nat \<Rightarrow> 'a::comm_monoid_add"
  shows "sum_list (map (\<lambda>t. x t + x (t + 128)) [0..<128]) = (\<Sum>i<256. x i)"
proof -
  have "sum_list (map (\<lambda>t. x t + x (t + 128)) [0..<128]) = (\<Sum>t = 0..<128. x t + x (t + 128))"
    by (simp add: interv_sum_list_conv_sum_set_nat)
  also have "\<dots> = (\<Sum>t = 0..<128. x t) + (\<Sum>t = 0..<128. x (t + 128))"
    by (simp add: sum.distrib)
  also have "(\<Sum>t = 0..<128. x (t + 128)) = (\<Sum>t = 128..<256. x t)"
    using sum.shift_bounds_nat_ivl[of x 0 128 128] by simp
  also have "(\<Sum>t = 0..<128. x t) + (\<Sum>t = 128..<256. x t) = (\<Sum>t = 0..<256. x t)"
    by (simp add: sum.atLeastLessThan_concat)
  finally show ?thesis by (simp add: lessThan_atLeast0)
qed

lemma value_small:
  "bx < 2 ^ 23 \<Longrightarrow> tx < 128 \<Longrightarrow> value0 pInput bx tx = pInput (int bx * 256 + int tx)"
  "bx < 2 ^ 23 \<Longrightarrow> tx < 128 \<Longrightarrow> value1 pInput bx tx = pInput (int bx * 256 + int (tx + 128))"
  by (simp_all add: value0_def value1_def index_small add.assoc)

lemma temp_after_mean_tree:
  assumes "length temp0 = 128"
  shows "temp_after_mean ops 128 pInput bx temp0 ! 0 =
     eval_tree (fadd ops)
       (map (\<lambda>tx. fadd ops (value0 pInput bx tx) (value1 pInput bx tx)) [0..<128])
       kernel_tree"
  using assms by (simp add: temp_after_mean_def store_sum_phase reduce_loop_64_tree)

lemma map_upt_cong:
  "(\<And>i. i < n \<Longrightarrow> f i = g i) \<Longrightarrow> map f [0..<n] = map g [0..<n]"
  by simp

lemma temp_after_mean_exact:
  fixes ops :: "'a::comm_monoid_add arith"
  assumes "fadd ops = (+)" "length temp0 = 128" "bx < 2 ^ 23"
  shows "temp_after_mean ops 128 pInput bx temp0 ! 0 = (\<Sum>i<256. pInput (int bx * 256 + int i))"
proof -
  have m: "map (\<lambda>tx. value0 pInput bx tx + value1 pInput bx tx) [0..<128] =
        map (\<lambda>t. pInput (int bx * 256 + int t) + pInput (int bx * 256 + int (t + 128))) [0..<128]"
    using assms(3) by (intro map_upt_cong) (simp add: value_small)
  have "temp_after_mean ops 128 pInput bx temp0 ! 0 =
        eval_tree (+) (map (\<lambda>t. pInput (int bx * 256 + int t) + pInput (int bx * 256 + int (t + 128))) [0..<128])
          kernel_tree"
    by (simp only: temp_after_mean_tree[OF assms(2)] assms(1) m)
  also have "\<dots> =
        sum_list (map (\<lambda>t. pInput (int bx * 256 + int t) + pInput (int bx * 256 + int (t + 128))) [0..<128])"
    by (rule eval_tree_exact) simp
  also have "\<dots> = (\<Sum>i<256. pInput (int bx * 256 + int i))"
    by (rule sum_halves[of "\<lambda>i. pInput (int bx * 256 + int i)"])
  finally show ?thesis .
qed

lemma temp_after_mean_length:
  "length temp0 = 128 \<Longrightarrow> length (temp_after_mean ops 128 pInput bx temp0) = 128"
  by (simp add: temp_after_mean_def store_sum_phase reduce_loop_length)

lemma store_sqdev_phase:
  "length temp = 128 \<Longrightarrow>
   all_threads 128 (store_sqdev ops pInput bx mu) temp =
     map (\<lambda>tx. fadd ops
        (fmul ops (fsub ops (value0 pInput bx tx) mu) (fsub ops (value0 pInput bx tx) mu))
        (fmul ops (fsub ops (value1 pInput bx tx) mu) (fsub ops (value1 pInput bx tx) mu)))
       [0..<128]"
  using store_phase[of temp 128 "\<lambda>tx. fadd ops
        (fmul ops (fsub ops (value0 pInput bx tx) mu) (fsub ops (value0 pInput bx tx) mu))
        (fmul ops (fsub ops (value1 pInput bx tx) mu) (fsub ops (value1 pInput bx tx) mu))"]
  by (simp add: store_sqdev_def[abs_def])

lemma sqdev_map:
  assumes "bx < 2 ^ 23"
  shows "map (\<lambda>tx. fadd ops
        (fmul ops (fsub ops (value0 pInput bx tx) mu) (fsub ops (value0 pInput bx tx) mu))
        (fmul ops (fsub ops (value1 pInput bx tx) mu) (fsub ops (value1 pInput bx tx) mu)))
       [0..<128] =
     map (\<lambda>t. fadd ops
        (fmul ops (fsub ops (pInput (int bx * 256 + int t)) mu)
                  (fsub ops (pInput (int bx * 256 + int t)) mu))
        (fmul ops (fsub ops (pInput (int bx * 256 + int (t + 128))) mu)
                  (fsub ops (pInput (int bx * 256 + int (t + 128))) mu)))
       [0..<128]"
  using assms by (intro map_upt_cong) (simp add: value_small)

lemma temp_after_var_eq:
  assumes "length temp0 = 128" "bx < 2 ^ 23"
  shows "temp_after_var ops 128 pInput bx temp0 =
     reduce_loop ops 128 64
       (map (\<lambda>t. fadd ops
          (fmul ops (fsub ops (pInput (int bx * 256 + int t)) (block_mean ops 128 pInput bx temp0))
                    (fsub ops (pInput (int bx * 256 + int t)) (block_mean ops 128 pInput bx temp0)))
          (fmul ops (fsub ops (pInput (int bx * 256 + int (t + 128))) (block_mean ops 128 pInput bx temp0))
                    (fsub ops (pInput (int bx * 256 + int (t + 128))) (block_mean ops 128 pInput bx temp0))))
        [0..<128])"
  unfolding temp_after_var_def
  by (simp only: store_sqdev_phase[OF temp_after_mean_length[OF assms(1)]] sqdev_map[OF assms(2)])

lemma block_var_tree:
  assumes "length temp0 = 128" "bx < 2 ^ 23"
  shows "block_var ops 128 pInput bx temp0 =
     fdiv ops (eval_tree (fadd ops)
       (map (\<lambda>t. fadd ops
          (fmul ops (fsub ops (pInput (int bx * 256 + int t)) (block_mean ops 128 pInput bx temp0))
                    (fsub ops (pInput (int bx * 256 + int t)) (block_mean ops 128 pInput bx temp0)))
          (fmul ops (fsub ops (pInput (int bx * 256 + int (t + 128))) (block_mean ops 128 pInput bx temp0))
                    (fsub ops (pInput (int bx * 256 + int (t + 128))) (block_mean ops 128 pInput bx temp0))))
        [0..<128]) kernel_tree) (fofint ops 256)"
  unfolding block_var_def temp_after_var_eq[OF assms]
  by (simp add: reduce_loop_64_tree)

lemma block_var_exact:
  fixes ops :: "'a::comm_monoid_add arith"
  assumes "fadd ops = (+)" "length temp0 = 128" "bx < 2 ^ 23"
  shows "block_var ops 128 pInput bx temp0 =
     fdiv ops (\<Sum>i<256. fmul ops
        (fsub ops (pInput (int bx * 256 + int i)) (block_mean ops 128 pInput bx temp0))
        (fsub ops (pInput (int bx * 256 + int i)) (block_mean ops 128 pInput bx temp0)))
       (fofint ops 256)"
proof -
  let ?sq = "\<lambda>i. fmul ops
        (fsub ops (pInput (int bx * 256 + int i)) (block_mean ops 128 pInput bx temp0))
        (fsub ops (pInput (int bx * 256 + int i)) (block_mean ops 128 pInput bx temp0))"
  have "block_var ops 128 pInput bx temp0 =
        fdiv ops (eval_tree (+) (map (\<lambda>t. ?sq t + ?sq (t + 128)) [0..<128]) kernel_tree)
          (fofint ops 256)"
    by (simp only: block_var_tree[OF assms(2,3)] assms(1))
  also have "eval_tree (+) (map (\<lambda>t. ?sq t + ?sq (t + 128)) [0..<128]) kernel_tree =
        sum_list (map (\<lambda>t. ?sq t + ?sq (t + 128)) [0..<128])"
    by (rule eval_tree_exact) simp
  also have "\<dots> = (\<Sum>i<256. ?sq i)"
    by (rule sum_halves)
  finally show ?thesis .
qed

lemma spike_sum:
  fixes f :: "int \<Rightarrow> int"
  shows "(\<Sum>i<(256::nat). f (spike (int i))) = f 384 + 255 * f 0"
proof -
  have "(\<Sum>i<(256::nat). f (spike (int i))) = (\<Sum>i<Suc 255. f (spike (int i)))"
    by simp
  also have "\<dots> = f (spike 0) + (\<Sum>i<(255::nat). f (spike (int (Suc i))))"
    by (simp only: sum.lessThan_Suc_shift) simp
  also have "(\<Sum>i<(255::nat). f (spike (int (Suc i)))) = (\<Sum>i<(255::nat). f 0)"
    by (rule sum.cong) (simp_all add: spike_def)
  finally show ?thesis by (simp add: spike_def)
qed

lemma spike_mean: "block_mean int_arith 128 spike 0 (replicate 128 0) = 1"
proof -
  have "temp_after_mean int_arith 128 spike 0 (replicate 128 0) ! 0 =
        (\<Sum>i<(256::nat). spike (int 0 * 256 + int i))"
    by (rule temp_after_mean_exact) (simp_all add: int_arith_def)
  also have "\<dots> = 384"
    using spike_sum[of "\<lambda>x. x"] by simp
  finally show ?thesis by (simp add: block_mean_def int_arith_def)
qed

lemma spike_var: "block_var int_arith 128 spike 0 (replicate 128 0) = 574"
proof -
  have "block_var int_arith 128 spike 0 (replicate 128 0) =
     fdiv int_arith (\<Sum>i<(256::nat). fmul int_arith
        (fsub int_arith (spike (int 0 * 256 + int i)) (block_mean int_arith 128 spike 0 (replicate 128 0)))
        (fsub int_arith (spike (int 0 * 256 + int i)) (block_mean int_arith 128 spike 0 (replicate 128 0))))
       (fofint int_arith 256)"
    by (rule block_var_exact) (simp_all add: int_arith_def)
  also have "\<dots> = (\<Sum>i<(256::nat). (spike (int i) - 1) * (spike (int i) - 1)) div 256"
    by (simp add: spike_mean) (simp add: int_arith_def)
  also have "(\<Sum>i<(256::nat). (spike (int i) - 1) * (spike (int i) - 1)) = 146944"
    using spike_sum[of "\<lambda>x. (x - 1) * (x - 1)"] by simp
  finally show ?thesis by simp
qed

lemma foldl_add_zeros: "foldl (+) (a::int) (replicate n 0) = a"
  by (induction n) simp_all

lemma spike_list: "map spike (map int [0..<256]) = 384 # replicate 255 0"
  by (rule nth_equalityI) (auto simp: spike_def nth_Cons split: nat.splits)

lemma spike_single_pass: "single_pass_var int_arith (map spike (map int [0..<256])) = 575"
  unfolding spike_list
  by (simp add: single_pass_var_def int_arith_def foldl_add_zeros)

lemma bump_sum:
  fixes f :: "int \<Rightarrow> int"
  shows "(\<Sum>i<(256::nat). f (bump (int i))) = f 10 + 255 * f 0"
proof -
  have "(\<Sum>i<(256::nat). f (bump (int i))) = (\<Sum>i<Suc 255. f (bump (int i)))"
    by simp
  also have "\<dots> = f (bump 0) + (\<Sum>i<(255::nat). f (bump (int (Suc i))))"
    by (simp only: sum.lessThan_Suc_shift) simp
  also have "(\<Sum>i<(255::nat). f (bump (int (Suc i)))) = (\<Sum>i<(255::nat). f 0)"
    by (rule sum.cong) (simp_all add: bump_def)
  finally show ?thesis by (simp add: bump_def)
qed

lemma bump_mean: "block_mean int_arith 128 bump 0 (replicate 128 0) = 0"
proof -
  have "temp_after_mean int_arith 128 bump 0 (replicate 128 0) ! 0 =
        (\<Sum>i<(256::nat). bump (int 0 * 256 + int i))"
    by (rule temp_after_mean_exact) (simp_all add: int_arith_def)
  also have "\<dots> = 10"
    using bump_sum[of "\<lambda>x. x"] by simp
  finally show ?thesis by (simp add: block_mean_def int_arith_def)
qed

lemma bump_var: "block_var int_arith 128 bump 0 (replicate 128 0) = 0"
proof -
  have "block_var int_arith 128 bump 0 (replicate 128 0) =
     fdiv int_arith (\<Sum>i<(256::nat). fmul int_arith
        (fsub int_arith (bump (int 0 * 256 + int i)) (block_mean int_arith 128 bump 0 (replicate 128 0)))
        (fsub int_arith (bump (int 0 * 256 + int i)) (block_mean int_arith 128 bump 0 (replicate 128 0))))
       (fofint int_arith 256)"
    by (rule block_var_exact) (simp_all add: int_arith_def)
  also have "\<dots> = (\<Sum>i<(256::nat). bump (int i) * bump (int i)) div 256"
    by (simp add: bump_mean) (simp add: int_arith_def)
  also have "(\<Sum>i<(256::nat). bump (int i) * bump (int i)) = 100"
    using bump_sum[of "\<lambda>x. x * x"] by simp
  finally show ?thesis by simp
qed

text \<open>
  The shared array is overwritten by the loads before it is read: what it held when the block
  started has no influence, so one initial content stands for that of every block.
\<close>

lemma block_mean_temp0:
  "length temp0 = 128 \<Longrightarrow> length temp0' = 128 \<Longrightarrow>
   block_mean ops 128 pInput bx temp0 = block_mean ops 128 pInput bx temp0'"
  by (simp add: block_mean_def temp_after_mean_def store_sum_phase)

lemma block_var_temp0:
  "length temp0 = 128 \<Longrightarrow> length temp0' = 128 \<Longrightarrow>
   block_var ops 128 pInput bx temp0 = block_var ops 128 pInput bx temp0'"
  using block_mean_temp0[of temp0 temp0' ops pInput bx]
  by (simp add: block_var_def temp_after_var_def store_sqdev_phase temp_after_mean_length)

lemma block_run_temp0:
  "length temp0 = 128 \<Longrightarrow> length temp0' = 128 \<Longrightarrow>
   block_run ops 128 pInput eps temp0 pOutput bx = block_run ops 128 pInput eps temp0' pOutput bx"
  using block_mean_temp0[of temp0 temp0' ops pInput bx] block_var_temp0[of temp0 temp0' ops pInput bx]
  by (simp add: block_run_def)

subsection \<open>The output of a block and of the grid\<close>

lemma output_phase_inv:
  assumes "bx < 2 ^ 23" "n \<le> 128"
  shows "all_threads n (store_output ops pInput bx mu var eps) pOutput =
     (\<lambda>a. if (int bx * 256 \<le> a \<and> a < int bx * 256 + int n) \<or>
               (int bx * 256 + 128 \<le> a \<and> a < int bx * 256 + 128 + int n)
            then fmul ops (fsub ops (pInput a) mu) (frsqrt ops (fadd ops var eps))
            else pOutput a)"
  using assms(2)
proof (induction n)
  case 0
  then show ?case by (auto simp: all_threads_0 fun_eq_iff)
next
  case (Suc n)
  then have n: "n < 128" by simp
  have idx: "index bx n = int bx * 256 + int n"
    using assms(1) n by (simp add: index_small)
  show ?case
    using Suc n
    by (auto simp: all_threads_Suc store_output_def value0_def value1_def idx fun_eq_iff)
qed

lemma output_phase:
  assumes "bx < 2 ^ 23"
  shows "block_run ops 128 pInput eps temp0 pOutput bx =
     (\<lambda>a. if int bx * 256 \<le> a \<and> a < int bx * 256 + 256
            then fmul ops (fsub ops (pInput a) (block_mean ops 128 pInput bx temp0))
                   (frsqrt ops (fadd ops (block_var ops 128 pInput bx temp0) eps))
            else pOutput a)"
  unfolding block_run_def
  by (simp only: output_phase_inv[OF assms order_refl]) (auto simp: fun_eq_iff)

lemma kernel_grid:
  assumes "g \<le> 2 ^ 23"
  shows "layerNormKernelV1 ops g 128 temp0 pInput pOutput eps =
     (\<lambda>a. if 0 \<le> a \<and> a < int g * 256
            then fmul ops (fsub ops (pInput a) (block_mean ops 128 pInput (nat (a div 256)) temp0))
                   (frsqrt ops (fadd ops (block_var ops 128 pInput (nat (a div 256)) temp0) eps))
            else pOutput a)"
  using assms
proof (induction g)
  case 0
  then show ?case by (auto simp: layerNormKernelV1_def fun_eq_iff)
next
  case (Suc g)
  then have g: "g < 2 ^ 23" by simp
  have step: "layerNormKernelV1 ops (Suc g) 128 temp0 pInput pOutput eps =
        block_run ops 128 pInput eps temp0 (layerNormKernelV1 ops g 128 temp0 pInput pOutput eps) g"
    by (simp add: layerNormKernelV1_def)
  have blk: "nat (a div 256) = g" if "int g * 256 \<le> a" "a < int g * 256 + 256" for a
  proof -
    have "a div 256 = int g" using that by linarith
    then show ?thesis by simp
  qed
  show ?case
    unfolding step output_phase[OF g]
    using Suc g by (auto simp: fun_eq_iff blk)
qed

subsection \<open>The kernel in exact arithmetic\<close>

text \<open>
  With operations that do not round, every output element is the normalised input element
  of the spec's contract. The device's arithmetic rounds, so this is a fact about the
  algorithm, not about the bits the device writes.
\<close>

lemma block_mean_exact:
  assumes "exact_arith ops" "length temp0 = 128" "v < 2 ^ 23"
  shows "block_mean ops 128 pInput v temp0 = vector_mean (\<lambda>i. pInput (int v * 256 + int i))"
  using assms temp_after_mean_exact[of ops temp0 v pInput]
  by (simp add: exact_arith_def block_mean_def vector_mean_def)

lemma block_var_exact_real:
  assumes "exact_arith ops" "length temp0 = 128" "v < 2 ^ 23"
  shows "block_var ops 128 pInput v temp0 = vector_var (\<lambda>i. pInput (int v * 256 + int i))"
  using assms block_var_exact[of ops temp0 v pInput] block_mean_exact[OF assms, of pInput]
  by (simp add: exact_arith_def vector_var_def power2_eq_square)

lemma layerNormKernelV1_exact:
  assumes ex: "exact_arith ops" and len: "length temp0 = 128"
    and n: "n \<le> 2 ^ 23" and v: "v < n" and i: "i < 256"
    and pos: "0 < vector_var (\<lambda>i. pInput (int v * 256 + int i)) + eps"
  shows "layerNormKernelV1 ops n 128 temp0 pInput pOutput eps (int v * 256 + int i) =
         layer_norm eps (\<lambda>i. pInput (int v * 256 + int i)) i"
proof -
  have v': "v < 2 ^ 23" using n v by simp
  have rng: "0 \<le> int v * 256 + int i \<and> int v * 256 + int i < int n * 256"
    using v i by auto
  have blk: "nat ((int v * 256 + int i) div 256) = v"
  proof -
    have "(int v * 256 + int i) div 256 = int v" using i by linarith
    then show ?thesis by simp
  qed
  let ?a = "int v * 256 + int i"
  let ?x = "\<lambda>i. pInput (int v * 256 + int i)"
  have "layerNormKernelV1 ops n 128 temp0 pInput pOutput eps ?a =
        fmul ops (fsub ops (pInput ?a) (block_mean ops 128 pInput (nat (?a div 256)) temp0))
          (frsqrt ops (fadd ops (block_var ops 128 pInput (nat (?a div 256)) temp0) eps))"
    using rng by (simp only: kernel_grid[OF n] if_True simp_thms)
  also have "\<dots> = fmul ops (fsub ops (?x i) (vector_mean ?x)) (frsqrt ops (fadd ops (vector_var ?x) eps))"
    by (simp only: blk block_mean_exact[OF ex len v'] block_var_exact_real[OF ex len v'])
  also have "\<dots> = (?x i - vector_mean ?x) * (1 / sqrt (vector_var ?x + eps))"
    using ex by (simp add: exact_arith_def)
  finally show ?thesis by (simp add: layer_norm_def)
qed

subsection \<open>The order of the threads between two barriers\<close>

text \<open>
  A step of the reduction gives the same shared array in whatever order the threads take it:
  thread \<open>tx < stride\<close> reads slots \<open>tx\<close> and \<open>tx + stride\<close> and writes slot \<open>tx\<close>, and no other
  thread writes either of them.
\<close>

lemma reduce_schedule_inv:
  "2 * stride \<le> length temp \<Longrightarrow> distinct ts \<Longrightarrow>
   length (foldl (reduce_thread ops stride) temp ts) = length temp \<and>
   (\<forall>i < length temp. foldl (reduce_thread ops stride) temp ts ! i =
      (if i < stride \<and> i \<in> set ts then fadd ops (temp ! i) (temp ! (i + stride)) else temp ! i))"
proof (induction ts rule: rev_induct)
  case Nil
  then show ?case by simp
next
  case (snoc t ts)
  let ?r = "foldl (reduce_thread ops stride) temp ts"
  from snoc have len: "length ?r = length temp"
    and nth: "\<And>i. i < length temp \<Longrightarrow> ?r ! i =
      (if i < stride \<and> i \<in> set ts then fadd ops (temp ! i) (temp ! (i + stride)) else temp ! i)"
    and fresh: "t \<notin> set ts"
    by auto
  show ?case
  proof (cases "t < stride")
    case True
    with snoc.prems have a: "t < length temp" "t + stride < length temp" by auto
    have rt: "?r ! t = temp ! t" using nth[OF a(1)] fresh by simp
    have rs: "?r ! (t + stride) = temp ! (t + stride)" using nth[OF a(2)] by simp
    have step: "foldl (reduce_thread ops stride) temp (ts @ [t]) =
                ?r[t := fadd ops (temp ! t) (temp ! (t + stride))]"
      using True by (simp add: reduce_thread_def rt rs)
    show ?thesis
      unfolding step using True len a
      by (auto simp: nth nth_list_update)
  next
    case False
    have step: "foldl (reduce_thread ops stride) temp (ts @ [t]) = ?r"
      using False by (simp add: reduce_thread_def)
    show ?thesis
      unfolding step using False len nth by auto
  qed
qed

lemma reduce_any_schedule:
  assumes "2 * stride \<le> length temp" "distinct ts" "set ts = {..<n}"
  shows "foldl (reduce_thread ops stride) temp ts = all_threads n (reduce_thread ops stride) temp"
proof (rule nth_equalityI)
  show "length (foldl (reduce_thread ops stride) temp ts) =
        length (all_threads n (reduce_thread ops stride) temp)"
    using reduce_schedule_inv[OF assms(1,2), of ops] reduce_step_length[OF assms(1), of n ops]
    by simp
next
  fix i assume "i < length (foldl (reduce_thread ops stride) temp ts)"
  then have i: "i < length temp"
    using reduce_schedule_inv[OF assms(1,2), of ops] by simp
  show "foldl (reduce_thread ops stride) temp ts ! i =
        all_threads n (reduce_thread ops stride) temp ! i"
    using reduce_schedule_inv[OF assms(1,2), of ops] reduce_step_inv[OF assms(1), of n ops] i assms(3)
    by auto
qed

section \<open>The claims\<close>

text \<open>
  C2 as stated fails: for an input of rank 2 with dimensions (4, 256) the product of the
  leading dimensions is 4, and \<open>enqueue\<close> launches 4 * 256 = 1024 groups.
\<close>

theorem enqueue_grid_counterexample:
  "calls (snd (enqueue int_arith rejecting_driver [] (LayerNormPlugin_new ''ln'' 0x3727C5AC)
      (\<lambda>i. tensor_desc 2 [4, 256]) (\<lambda>i. tensor_desc 2 [4, 256]) (\<lambda>a. 0) 0 idle_gpu)) =
     [KernelLaunch \<lparr>gridDim = 1024, blockDim = 128, sharedMem = 0, stream_of = 0\<rparr>]
   \<and> leading_dims_product (dims (tensor_desc 2 [4, 256])) = 4"
  by (simp add: enqueue_calls tensor_desc_def idle_gpu_def leading_dims_product_def)

text \<open>
  C2, as amended. \<open>enqueue\<close> launches the kernel with \<^verbatim>\<open>d[0] * d[1]\<close> groups (a 32-bit
  product) of 128 threads and no dynamic shared memory; for an input of rank 3 with
  dimensions that are not negative and a product below \<open>2 ^ 31\<close> this is the product of the
  leading dimensions; an accepted launch runs the kernel on that grid. Thread \<open>t\<close> of group
  \<open>v\<close> (below \<open>2 ^ 23\<close> groups, where the index does not wrap) loads the cells at offsets \<open>t\<close>
  and \<open>t + 128\<close> of vector \<open>v\<close>, its two stores to the shared array depend on the input
  through these two cells only, and its store to the output changes these two cells only.
  The launched grid is these threads: the kernel is, group by group, the 128 threads' stores
  to the output, with the mean and the variance the two reductions of the 128 threads'
  stores to the shared array. An accepted launch of at most \<open>2 ^ 23\<close> groups therefore writes
  exactly the cells of the first \<^verbatim>\<open>d[0] * d[1]\<close> vectors, each cell from the input cell at the
  same offset and the statistics of its own vector, and leaves every other cell as it was.
\<close>

theorem enqueue_launch_geometry:
  "calls (snd (enqueue ops driver temp0 this inputDesc outputDesc inputs0 stream g)) =
     calls g @ [KernelLaunch \<lparr>gridDim = unat (d (dims (inputDesc 0)) 0 * d (dims (inputDesc 0)) 1),
                               blockDim = 128, sharedMem = 0, stream_of = stream\<rparr>]
   \<and> (nbDims (dims (inputDesc 0)) = 3 \<and>
      0 \<le> sint (d (dims (inputDesc 0)) 0) \<and> 0 \<le> sint (d (dims (inputDesc 0)) 1) \<and>
      sint (d (dims (inputDesc 0)) 0) * sint (d (dims (inputDesc 0)) 1) < 2 ^ 31 \<longrightarrow>
        int (unat (d (dims (inputDesc 0)) 0 * d (dims (inputDesc 0)) 1)) =
          leading_dims_product (dims (inputDesc 0)))
   \<and> (driver \<lparr>gridDim = unat (d (dims (inputDesc 0)) 0 * d (dims (inputDesc 0)) 1),
               blockDim = 128, sharedMem = 0, stream_of = stream\<rparr> = cudaSuccess \<longrightarrow>
        outputs0 (snd (enqueue ops driver temp0 this inputDesc outputDesc inputs0 stream g)) =
          layerNormKernelV1 ops
            (unat (d (dims (inputDesc 0)) 0 * d (dims (inputDesc 0)) 1)) 128 temp0
            inputs0 (outputs0 g) (fbits ops (epsilon (m_member this))))
   \<and> (v < 2 ^ 23 \<and> t < 128 \<longrightarrow>
        value0 pInput v t = pInput (int v * 256 + int t)
        \<and> value1 pInput v t = pInput (int v * 256 + (int t + 128))
        \<and> store_sum ops pInput v temp t =
            temp[t := fadd ops (pInput (int v * 256 + int t)) (pInput (int v * 256 + (int t + 128)))]
        \<and> store_sqdev ops pInput v mu temp t =
            temp[t := fadd ops
              (fmul ops (fsub ops (pInput (int v * 256 + int t)) mu)
                        (fsub ops (pInput (int v * 256 + int t)) mu))
              (fmul ops (fsub ops (pInput (int v * 256 + (int t + 128))) mu)
                        (fsub ops (pInput (int v * 256 + (int t + 128))) mu))]
        \<and> store_output ops pInput v mu var eps pOutput t =
            (pOutput(int v * 256 + int t :=
               fmul ops (fsub ops (pInput (int v * 256 + int t)) mu)
                        (frsqrt ops (fadd ops var eps))))
              (int v * 256 + (int t + 128) :=
               fmul ops (fsub ops (pInput (int v * 256 + (int t + 128))) mu)
                        (frsqrt ops (fadd ops var eps))))
   \<and> (driver \<lparr>gridDim = unat (d (dims (inputDesc 0)) 0 * d (dims (inputDesc 0)) 1),
               blockDim = 128, sharedMem = 0, stream_of = stream\<rparr> = cudaSuccess \<and>
      unat (d (dims (inputDesc 0)) 0 * d (dims (inputDesc 0)) 1) \<le> 2 ^ 23 \<longrightarrow>
        outputs0 (snd (enqueue ops driver temp0 this inputDesc outputDesc inputs0 stream g)) =
          (\<lambda>a. if 0 \<le> a \<and>
                    a < int (unat (d (dims (inputDesc 0)) 0 * d (dims (inputDesc 0)) 1)) * 256
                 then fmul ops
                        (fsub ops (inputs0 a)
                           (block_mean ops 128 inputs0 (nat (a div 256)) temp0))
                        (frsqrt ops
                           (fadd ops (block_var ops 128 inputs0 (nat (a div 256)) temp0)
                              (fbits ops (epsilon (m_member this)))))
                 else outputs0 g a))
   \<and> layerNormKernelV1 ops n 128 temp0 pInput pOutput eps =
        foldl (\<lambda>out bx.
                 foldl (store_output ops pInput bx (block_mean ops 128 pInput bx temp0)
                          (block_var ops 128 pInput bx temp0) eps) out [0..<128])
          pOutput [0..<n]
   \<and> block_mean ops 128 pInput v temp0 =
        fdiv ops
          (reduce_loop ops 128 64 (foldl (store_sum ops pInput v) temp0 [0..<128]) ! 0)
          (fofint ops 256)
   \<and> block_var ops 128 pInput v temp0 =
        fdiv ops
          (reduce_loop ops 128 64
             (foldl (store_sqdev ops pInput v (block_mean ops 128 pInput v temp0))
                (reduce_loop ops 128 64 (foldl (store_sum ops pInput v) temp0 [0..<128]))
                [0..<128]) ! 0)
          (fofint ops 256)"
proof -
  have grid: "int (unat (d (dims (inputDesc 0)) 0 * d (dims (inputDesc 0)) 1)) =
          leading_dims_product (dims (inputDesc 0))"
    if "nbDims (dims (inputDesc 0)) = 3"
      "0 \<le> sint (d (dims (inputDesc 0)) 0)" "0 \<le> sint (d (dims (inputDesc 0)) 1)"
      "sint (d (dims (inputDesc 0)) 0) * sint (d (dims (inputDesc 0)) 1) < 2 ^ 31"
  proof -
    have "[0..<nat (3 - 1 :: int)] = [0, 1]" by (simp add: upt_rec)
    then have "leading_dims_product (dims (inputDesc 0)) =
       sint (d (dims (inputDesc 0)) 0) * sint (d (dims (inputDesc 0)) 1)"
      using that(1) by (simp add: leading_dims_product_def)
    with unat_mult_small[OF that(2,3,4)] show ?thesis by simp
  qed
  have run: "outputs0 (snd (enqueue ops driver temp0 this inputDesc outputDesc inputs0 stream g)) =
          layerNormKernelV1 ops
            (unat (d (dims (inputDesc 0)) 0 * d (dims (inputDesc 0)) 1)) 128 temp0
            inputs0 (outputs0 g) (fbits ops (epsilon (m_member this)))"
    if "driver \<lparr>gridDim = unat (d (dims (inputDesc 0)) 0 * d (dims (inputDesc 0)) 1),
               blockDim = 128, sharedMem = 0, stream_of = stream\<rparr> = cudaSuccess"
    using that by (simp add: enqueue_def cudaLaunchKernel_def Let_def)
  have idx: "index v t = int v * 256 + int t" if "v < 2 ^ 23" "t < 128"
    using that by (simp add: index_small)
  have cells: "outputs0 (snd (enqueue ops driver temp0 this inputDesc outputDesc inputs0 stream g)) =
          (\<lambda>a. if 0 \<le> a \<and>
                    a < int (unat (d (dims (inputDesc 0)) 0 * d (dims (inputDesc 0)) 1)) * 256
                 then fmul ops
                        (fsub ops (inputs0 a)
                           (block_mean ops 128 inputs0 (nat (a div 256)) temp0))
                        (frsqrt ops
                           (fadd ops (block_var ops 128 inputs0 (nat (a div 256)) temp0)
                              (fbits ops (epsilon (m_member this)))))
                 else outputs0 g a)"
    if ok: "driver \<lparr>gridDim = unat (d (dims (inputDesc 0)) 0 * d (dims (inputDesc 0)) 1),
               blockDim = 128, sharedMem = 0, stream_of = stream\<rparr> = cudaSuccess"
      and small: "unat (d (dims (inputDesc 0)) 0 * d (dims (inputDesc 0)) 1) \<le> 2 ^ 23"
    unfolding run[OF ok] by (rule kernel_grid[OF small])
  have threads: "layerNormKernelV1 ops n 128 temp0 pInput pOutput eps =
        foldl (\<lambda>out bx.
                 foldl (store_output ops pInput bx (block_mean ops 128 pInput bx temp0)
                          (block_var ops 128 pInput bx temp0) eps) out [0..<128])
          pOutput [0..<n]"
    by (simp add: layerNormKernelV1_def block_run_def[abs_def] all_threads_def)
  have mean: "block_mean ops 128 pInput v temp0 =
        fdiv ops
          (reduce_loop ops 128 64 (foldl (store_sum ops pInput v) temp0 [0..<128]) ! 0)
          (fofint ops 256)"
    by (simp add: block_mean_def temp_after_mean_def all_threads_def)
  have var': "block_var ops 128 pInput v temp0 =
        fdiv ops
          (reduce_loop ops 128 64
             (foldl (store_sqdev ops pInput v (block_mean ops 128 pInput v temp0))
                (reduce_loop ops 128 64 (foldl (store_sum ops pInput v) temp0 [0..<128]))
                [0..<128]) ! 0)
          (fofint ops 256)"
    by (simp add: block_var_def temp_after_var_def temp_after_mean_def all_threads_def)
  have old: "calls (snd (enqueue ops driver temp0 this inputDesc outputDesc inputs0 stream g)) =
     calls g @ [KernelLaunch \<lparr>gridDim = unat (d (dims (inputDesc 0)) 0 * d (dims (inputDesc 0)) 1),
                               blockDim = 128, sharedMem = 0, stream_of = stream\<rparr>]
   \<and> (nbDims (dims (inputDesc 0)) = 3 \<and>
      0 \<le> sint (d (dims (inputDesc 0)) 0) \<and> 0 \<le> sint (d (dims (inputDesc 0)) 1) \<and>
      sint (d (dims (inputDesc 0)) 0) * sint (d (dims (inputDesc 0)) 1) < 2 ^ 31 \<longrightarrow>
        int (unat (d (dims (inputDesc 0)) 0 * d (dims (inputDesc 0)) 1)) =
          leading_dims_product (dims (inputDesc 0)))
   \<and> (driver \<lparr>gridDim = unat (d (dims (inputDesc 0)) 0 * d (dims (inputDesc 0)) 1),
               blockDim = 128, sharedMem = 0, stream_of = stream\<rparr> = cudaSuccess \<longrightarrow>
        outputs0 (snd (enqueue ops driver temp0 this inputDesc outputDesc inputs0 stream g)) =
          layerNormKernelV1 ops
            (unat (d (dims (inputDesc 0)) 0 * d (dims (inputDesc 0)) 1)) 128 temp0
            inputs0 (outputs0 g) (fbits ops (epsilon (m_member this))))
   \<and> (v < 2 ^ 23 \<and> t < 128 \<longrightarrow>
        value0 pInput v t = pInput (int v * 256 + int t)
        \<and> value1 pInput v t = pInput (int v * 256 + (int t + 128))
        \<and> store_sum ops pInput v temp t =
            temp[t := fadd ops (pInput (int v * 256 + int t)) (pInput (int v * 256 + (int t + 128)))]
        \<and> store_sqdev ops pInput v mu temp t =
            temp[t := fadd ops
              (fmul ops (fsub ops (pInput (int v * 256 + int t)) mu)
                        (fsub ops (pInput (int v * 256 + int t)) mu))
              (fmul ops (fsub ops (pInput (int v * 256 + (int t + 128))) mu)
                        (fsub ops (pInput (int v * 256 + (int t + 128))) mu))]
        \<and> store_output ops pInput v mu var eps pOutput t =
            (pOutput(int v * 256 + int t :=
               fmul ops (fsub ops (pInput (int v * 256 + int t)) mu)
                        (frsqrt ops (fadd ops var eps))))
              (int v * 256 + (int t + 128) :=
               fmul ops (fsub ops (pInput (int v * 256 + (int t + 128))) mu)
                        (frsqrt ops (fadd ops var eps))))"
    using grid run
    by (simp add: enqueue_calls idx value0_def value1_def store_sum_def store_sqdev_def
        store_output_def add.assoc)
  show ?thesis
    apply (intro conjI)
    subgoal using old by blast
    subgoal using old by blast
    subgoal using old by blast
    subgoal using old by blast
    subgoal using cells by blast
    subgoal by (rule threads)
    subgoal by (rule mean)
    subgoal by (rule var')
    done
qed

theorem enqueue_launch_geometry_witness:
  "outputs0 (snd (enqueue int_arith rejecting_driver (replicate 128 0) (LayerNormPlugin_new ''ln'' 1)
      (\<lambda>i. tensor_desc 3 [2, 3, 256]) (\<lambda>i. tensor_desc 3 [2, 3, 256]) bump 0
      (idle_gpu\<lparr>outputs0 := (\<lambda>a. 7)\<rparr>))) 0 = 10
   \<and> outputs0 (snd (enqueue int_arith rejecting_driver (replicate 128 0) (LayerNormPlugin_new ''ln'' 1)
      (\<lambda>i. tensor_desc 3 [2, 3, 256]) (\<lambda>i. tensor_desc 3 [2, 3, 256]) bump 0
      (idle_gpu\<lparr>outputs0 := (\<lambda>a. 7)\<rparr>))) 1 = 0
   \<and> outputs0 (snd (enqueue int_arith rejecting_driver (replicate 128 0) (LayerNormPlugin_new ''ln'' 1)
      (\<lambda>i. tensor_desc 3 [2, 3, 256]) (\<lambda>i. tensor_desc 3 [2, 3, 256]) bump 0
      (idle_gpu\<lparr>outputs0 := (\<lambda>a. 7)\<rparr>))) 1536 = 7
   \<and> calls (snd (enqueue int_arith rejecting_driver (replicate 128 0) (LayerNormPlugin_new ''ln'' 1)
      (\<lambda>i. tensor_desc 3 [2, 3, 256]) (\<lambda>i. tensor_desc 3 [2, 3, 256]) bump 0
      (idle_gpu\<lparr>outputs0 := (\<lambda>a. 7)\<rparr>))) =
       [KernelLaunch \<lparr>gridDim = 6, blockDim = 128, sharedMem = 0, stream_of = 0\<rparr>]
   \<and> leading_dims_product (dims (tensor_desc 3 [2, 3, 256])) = 6
   \<and> value1 (\<lambda>a. a) 5 127 = 5 * 256 + 255"
proof -
  let ?desc = "\<lambda>i::nat. tensor_desc 3 [2, 3, 256]"
  let ?plug = "LayerNormPlugin_new ''ln'' 1"
  let ?g = "idle_gpu\<lparr>outputs0 := (\<lambda>a. 7)\<rparr>"
  let ?t0 = "replicate 128 (0::int)"
  let ?out = "outputs0 (snd (enqueue int_arith rejecting_driver ?t0 ?plug ?desc ?desc bump 0 ?g))"
  have g: "unat (d (dims (?desc 0)) 0 * d (dims (?desc 0)) 1) = 6"
    by (simp add: tensor_desc_def)
  have ok: "rejecting_driver \<lparr>gridDim = unat (d (dims (?desc 0)) 0 * d (dims (?desc 0)) 1),
               blockDim = 128, sharedMem = 0, stream_of = 0\<rparr> = cudaSuccess"
    using g by (simp add: rejecting_driver_def)
  have small: "unat (d (dims (?desc 0)) 0 * d (dims (?desc 0)) 1) \<le> 2 ^ 23"
    using g by simp
  have rng: "nbDims (dims (?desc 0)) = 3 \<and>
      0 \<le> sint (d (dims (?desc 0)) 0) \<and> 0 \<le> sint (d (dims (?desc 0)) 1) \<and>
      sint (d (dims (?desc 0)) 0) * sint (d (dims (?desc 0)) 1) < 2 ^ 31"
    by (simp add: tensor_desc_def)
  have vt: "(5::nat) < 2 ^ 23 \<and> (127::nat) < 128" by simp
  note t = enqueue_launch_geometry[of int_arith rejecting_driver ?t0 ?plug
      ?desc ?desc bump 0 ?g 5 127 "\<lambda>a. a" "[]" 0 0 0 "\<lambda>a. 0" 0]
  have cells: "?out =
          (\<lambda>a. if 0 \<le> a \<and> a < int (unat (d (dims (?desc 0)) 0 * d (dims (?desc 0)) 1)) * 256
                 then fmul int_arith
                        (fsub int_arith (bump a)
                           (block_mean int_arith 128 bump (nat (a div 256)) ?t0))
                        (frsqrt int_arith
                           (fadd int_arith (block_var int_arith 128 bump (nat (a div 256)) ?t0)
                              (fbits int_arith (epsilon (m_member ?plug)))))
                 else outputs0 ?g a)"
    using t ok small by blast
  have c0: "?out 0 = 10"
    unfolding cells g
    by (simp add: bump_mean bump_var) (simp add: int_arith_def LayerNormPlugin_new_def bump_def)
  have c1: "?out 1 = 0"
    unfolding cells g
    by (simp add: bump_mean bump_var) (simp add: int_arith_def LayerNormPlugin_new_def bump_def)
  have c2: "?out 1536 = 7"
    unfolding cells g by (simp add: idle_gpu_def)
  have cl: "calls (snd (enqueue int_arith rejecting_driver ?t0 ?plug ?desc ?desc bump 0 ?g)) =
       calls ?g @ [KernelLaunch \<lparr>gridDim = unat (d (dims (?desc 0)) 0 * d (dims (?desc 0)) 1),
                               blockDim = 128, sharedMem = 0, stream_of = 0\<rparr>]"
    using t by blast
  have 2: "int (unat (d (dims (?desc 0)) 0 * d (dims (?desc 0)) 1)) =
      leading_dims_product (dims (?desc 0))"
    using t rng by blast
  have 3: "value1 (\<lambda>a. a) 5 127 = int 5 * 256 + (int 127 + 128)"
    using t vt by blast
  have 4: "leading_dims_product (dims (tensor_desc 3 [2, 3, 256])) = 6"
    using 2 g by (simp only: )
  have 5: "calls (snd (enqueue int_arith rejecting_driver ?t0 ?plug ?desc ?desc bump 0 ?g)) =
       [KernelLaunch \<lparr>gridDim = 6, blockDim = 128, sharedMem = 0, stream_of = 0\<rparr>]"
    unfolding cl g by (simp add: idle_gpu_def)
  from c0 c1 c2 5 4 3 show ?thesis by simp
qed

text \<open>
  C3 as stated fails: on an input whose first dimension is 0 the grid is empty, the runtime
  refuses the launch, and \<open>enqueue\<close> still returns 0.
\<close>

theorem enqueue_failure_counterexample:
  "lastError (snd (enqueue int_arith rejecting_driver [] (LayerNormPlugin_new ''ln'' 0x3727C5AC)
      (\<lambda>i. tensor_desc 3 [0, 4, 256]) (\<lambda>i. tensor_desc 3 [0, 4, 256]) (\<lambda>a. 0) 0 idle_gpu)) =
     cudaErrorInvalidConfiguration
   \<and> fst (enqueue int_arith rejecting_driver [] (LayerNormPlugin_new ''ln'' 0x3727C5AC)
      (\<lambda>i. tensor_desc 3 [0, 4, 256]) (\<lambda>i. tensor_desc 3 [0, 4, 256]) (\<lambda>a. 0) 0 idle_gpu) = 0"
  by (simp add: enqueue_def cudaLaunchKernel_def Let_def rejecting_driver_def tensor_desc_def idle_gpu_def)

text \<open>
  C3, as amended. \<open>enqueue\<close> returns status 0 on every invocation; it issues exactly one call
  to the runtime, the kernel launch, and no synchronisation; when the runtime refuses the
  launch the error is left in the runtime's error state and the output buffer is untouched.
\<close>

theorem enqueue_status:
  "fst (enqueue ops driver temp0 this inputDesc outputDesc inputs0 stream g) = 0
   \<and> calls (snd (enqueue ops driver temp0 this inputDesc outputDesc inputs0 stream g)) =
       calls g @ [KernelLaunch \<lparr>gridDim = unat (d (dims (inputDesc 0)) 0 * d (dims (inputDesc 0)) 1),
                                 blockDim = 128, sharedMem = 0, stream_of = stream\<rparr>]
   \<and> (driver \<lparr>gridDim = unat (d (dims (inputDesc 0)) 0 * d (dims (inputDesc 0)) 1),
               blockDim = 128, sharedMem = 0, stream_of = stream\<rparr> \<noteq> cudaSuccess \<longrightarrow>
        lastError (snd (enqueue ops driver temp0 this inputDesc outputDesc inputs0 stream g)) =
          driver \<lparr>gridDim = unat (d (dims (inputDesc 0)) 0 * d (dims (inputDesc 0)) 1),
                   blockDim = 128, sharedMem = 0, stream_of = stream\<rparr>
        \<and> outputs0 (snd (enqueue ops driver temp0 this inputDesc outputDesc inputs0 stream g)) =
          outputs0 g)"
  by (simp add: enqueue_def cudaLaunchKernel_def Let_def)

theorem enqueue_status_witness:
  "fst (enqueue int_arith (\<lambda>cfg. cudaErrorLaunchFailure) [] (LayerNormPlugin_new ''ln'' 0)
         (\<lambda>i. tensor_desc 3 [2, 3, 256]) (\<lambda>i. tensor_desc 3 [2, 3, 256]) (\<lambda>a. 0) 0 idle_gpu) = 0
   \<and> lastError (snd (enqueue int_arith (\<lambda>cfg. cudaErrorLaunchFailure) [] (LayerNormPlugin_new ''ln'' 0)
         (\<lambda>i. tensor_desc 3 [2, 3, 256]) (\<lambda>i. tensor_desc 3 [2, 3, 256]) (\<lambda>a. 0) 0 idle_gpu)) =
       cudaErrorLaunchFailure"
  using enqueue_status[of int_arith "\<lambda>cfg. cudaErrorLaunchFailure" "[]" "LayerNormPlugin_new ''ln'' 0"
      "\<lambda>i. tensor_desc 3 [2, 3, 256]" "\<lambda>i. tensor_desc 3 [2, 3, 256]" "\<lambda>a. 0" 0 idle_gpu]
  by simp

text \<open>
  C4. The loop is a total function. Started at stride 64 with 128 threads it takes the seven
  steps of strides 64, 32, 16, 8, 4, 2, 1, each a round of all threads closed by the barrier.
  For every content of the 128 slots and every addition, rounding or not, it leaves in slot 0
  the value of \<open>kernel_tree\<close>, a tree of additions in which every one of the 128 slots occurs
  exactly once; after the loads of the first pass the slots hold the 128 sums of the two
  elements of each thread, and the mean is slot 0 divided by 256. Where the addition is exact
  (\<open>xops\<close>), slot 0 is the sum of the 128 slots, after the loads the sum of the 256 elements of
  the block's vector, and the mean is that sum divided by 256.
\<close>

theorem reduce_loop_sum:
  fixes ops :: "'a arith" and xops :: "'b::comm_monoid_add arith"
  shows
  "reduce_loop ops 128 64 temp =
     all_threads 128 (reduce_thread ops 1)
      (all_threads 128 (reduce_thread ops 2)
        (all_threads 128 (reduce_thread ops 4)
          (all_threads 128 (reduce_thread ops 8)
            (all_threads 128 (reduce_thread ops 16)
              (all_threads 128 (reduce_thread ops 32)
                (all_threads 128 (reduce_thread ops 64) temp))))))
   \<and> kernel_tree = reduction_tree 7 1 0
   \<and> mset (slots kernel_tree) = mset [0..<128]
   \<and> (length temp = 128 \<longrightarrow>
        reduce_loop ops 128 64 temp ! 0 = eval_tree (fadd ops) temp kernel_tree)
   \<and> (length temp0 = 128 \<and> bx < 2 ^ 23 \<longrightarrow>
        temp_after_mean ops 128 pInput bx temp0 ! 0 =
          eval_tree (fadd ops)
            (map (\<lambda>t. fadd ops (pInput (int bx * 256 + int t))
                                (pInput (int bx * 256 + int (t + 128)))) [0..<128])
            kernel_tree)
   \<and> block_mean ops 128 pInput bx temp0 =
        fdiv ops (temp_after_mean ops 128 pInput bx temp0 ! 0) (fofint ops 256)
   \<and> (fadd xops = (+) \<and> length xtemp = 128 \<longrightarrow>
        reduce_loop xops 128 64 xtemp ! 0 = sum_list xtemp)
   \<and> (fadd xops = (+) \<and> length xtemp = 128 \<and> bx < 2 ^ 23 \<longrightarrow>
        temp_after_mean xops 128 xInput bx xtemp ! 0 = (\<Sum>i<256. xInput (int bx * 256 + int i))
        \<and> block_mean xops 128 xInput bx xtemp =
            fdiv xops (\<Sum>i<256. xInput (int bx * 256 + int i)) (fofint xops 256))"
proof -
  have a: "reduce_loop ops 128 64 temp ! 0 = eval_tree (fadd ops) temp kernel_tree"
    if "length temp = 128"
    using that by (rule reduce_loop_64_tree)
  have m: "map (\<lambda>tx. fadd ops (value0 pInput bx tx) (value1 pInput bx tx)) [0..<128] =
        map (\<lambda>t. fadd ops (pInput (int bx * 256 + int t))
                            (pInput (int bx * 256 + int (t + 128)))) [0..<128]"
    if "bx < 2 ^ 23"
    using that by (intro map_upt_cong) (simp add: value_small)
  have a': "temp_after_mean ops 128 pInput bx temp0 ! 0 =
          eval_tree (fadd ops)
            (map (\<lambda>t. fadd ops (pInput (int bx * 256 + int t))
                                (pInput (int bx * 256 + int (t + 128)))) [0..<128])
            kernel_tree"
    if "length temp0 = 128" "bx < 2 ^ 23"
    by (simp only: temp_after_mean_tree[OF that(1)] m[OF that(2)])
  have b: "reduce_loop xops 128 64 xtemp ! 0 = sum_list xtemp"
    if "fadd xops = (+)" "length xtemp = 128"
    using that by (simp add: reduce_loop_64_tree eval_tree_exact)
  have c: "temp_after_mean xops 128 xInput bx xtemp ! 0 = (\<Sum>i<256. xInput (int bx * 256 + int i))"
    if "fadd xops = (+)" "length xtemp = 128" "bx < 2 ^ 23"
    using that by (rule temp_after_mean_exact)
  have c': "block_mean xops 128 xInput bx xtemp =
            fdiv xops (\<Sum>i<256. xInput (int bx * 256 + int i)) (fofint xops 256)"
    if "fadd xops = (+)" "length xtemp = 128" "bx < 2 ^ 23"
    using c[OF that] by (simp add: block_mean_def)
  show ?thesis
    apply (intro conjI impI; (elim conjE)?)
    subgoal by (rule reduce_loop_unrolled)
    subgoal by (rule kernel_tree_def)
    subgoal by (rule slots_kernel_tree)
    subgoal by (rule a)
    subgoal by (rule a')
    subgoal by (rule block_mean_def)
    subgoal by (rule b)
    subgoal by (rule c)
    subgoal by (rule c')
    done
qed

theorem reduce_loop_sum_witness:
  "reduce_loop int_arith 128 64 (map int [0..<128]) ! 0 = 8128
   \<and> block_mean int_arith 128 (\<lambda>a. 1) 3 (replicate 128 0) = 1"
proof -
  have s: "sum_list (map int [0..<128]) = 8128"
    by (simp add: interv_sum_list_conv_sum_set_nat flip: of_nat_sum) code_simp
  have e: "fadd int_arith = (+)" by (simp add: int_arith_def)
  have c: "(\<Sum>i<(256::nat). (1::int)) = 256" by simp
  note t = reduce_loop_sum[of int_arith "map int [0..<128]" "replicate 128 0" 3 "\<lambda>a. 1"
      int_arith "map int [0..<128]" "\<lambda>a. 1"]
  have l: "length (map int [0..<128]) = 128" "length (replicate 128 (0::int)) = 128"
    "(3::nat) < 2 ^ 23" by simp_all
  have 1: "reduce_loop int_arith 128 64 (map int [0..<128]) ! 0 = sum_list (map int [0..<128])"
    using t e l by blast
  note t' = reduce_loop_sum[of int_arith "map int [0..<128]" "replicate 128 0" 3 "\<lambda>a. 1"
      int_arith "replicate 128 0" "\<lambda>a. 1"]
  have 2: "block_mean int_arith 128 (\<lambda>a. 1) 3 (replicate 128 0) =
         fdiv int_arith (\<Sum>i<(256::nat). 1) (fofint int_arith 256)"
    using t' e l by blast
  from 1 2 s c show ?thesis by (simp add: int_arith_def)
qed

text \<open>
  C5. The variance of the kernel is two-pass, in every arithmetic: a thread stores the sum of
  the squared deviations of its two elements from the mean of the first pass, the same loop
  reduces these 128 values by the same tree, and slot 0 is divided by 256. Where the addition
  is exact (\<open>xops\<close>) this is the sum of the 256 squared deviations divided by 256. It is not
  the single-pass formula: in an arithmetic that rounds (the integers with floor division)
  the two differ on the vector (384, 0, ..., 0), where the kernel's variance is 574 and
  \<^verbatim>\<open>E[x^2] - E[x]^2\<close> is 575.
\<close>

theorem variance_two_pass:
  fixes ops :: "'a arith" and xops :: "'b::comm_monoid_add arith"
  shows
  "(bx < 2 ^ 23 \<and> t < 128 \<longrightarrow>
      store_sqdev ops pInput bx (block_mean ops 128 pInput bx temp0) temp t =
        temp[t := fadd ops
          (fmul ops (fsub ops (pInput (int bx * 256 + int t)) (block_mean ops 128 pInput bx temp0))
                    (fsub ops (pInput (int bx * 256 + int t)) (block_mean ops 128 pInput bx temp0)))
          (fmul ops (fsub ops (pInput (int bx * 256 + int (t + 128))) (block_mean ops 128 pInput bx temp0))
                    (fsub ops (pInput (int bx * 256 + int (t + 128))) (block_mean ops 128 pInput bx temp0)))])
   \<and> (length temp0 = 128 \<and> bx < 2 ^ 23 \<longrightarrow>
      temp_after_var ops 128 pInput bx temp0 =
          reduce_loop ops 128 64
           (map (\<lambda>t. fadd ops
             (fmul ops (fsub ops (pInput (int bx * 256 + int t)) (block_mean ops 128 pInput bx temp0))
                       (fsub ops (pInput (int bx * 256 + int t)) (block_mean ops 128 pInput bx temp0)))
             (fmul ops (fsub ops (pInput (int bx * 256 + int (t + 128))) (block_mean ops 128 pInput bx temp0))
                       (fsub ops (pInput (int bx * 256 + int (t + 128))) (block_mean ops 128 pInput bx temp0))))
            [0..<128])
      \<and> block_var ops 128 pInput bx temp0 =
          fdiv ops (eval_tree (fadd ops)
           (map (\<lambda>t. fadd ops
             (fmul ops (fsub ops (pInput (int bx * 256 + int t)) (block_mean ops 128 pInput bx temp0))
                       (fsub ops (pInput (int bx * 256 + int t)) (block_mean ops 128 pInput bx temp0)))
             (fmul ops (fsub ops (pInput (int bx * 256 + int (t + 128))) (block_mean ops 128 pInput bx temp0))
                       (fsub ops (pInput (int bx * 256 + int (t + 128))) (block_mean ops 128 pInput bx temp0))))
            [0..<128]) kernel_tree) (fofint ops 256))
   \<and> block_var ops 128 pInput bx temp0 =
        fdiv ops (temp_after_var ops 128 pInput bx temp0 ! 0) (fofint ops 256)
   \<and> (fadd xops = (+) \<and> length xtemp = 128 \<and> bx < 2 ^ 23 \<longrightarrow>
        block_var xops 128 xInput bx xtemp =
          fdiv xops (\<Sum>i<256. fmul xops
             (fsub xops (xInput (int bx * 256 + int i)) (block_mean xops 128 xInput bx xtemp))
             (fsub xops (xInput (int bx * 256 + int i)) (block_mean xops 128 xInput bx xtemp)))
            (fofint xops 256))
   \<and> block_var int_arith 128 spike 0 (replicate 128 0) = 574
   \<and> single_pass_var int_arith (map spike (map int [0..<256])) = 575"
proof -
  have st: "store_sqdev ops pInput bx mu temp t =
           temp[t := fadd ops
             (fmul ops (fsub ops (pInput (int bx * 256 + int t)) mu)
                       (fsub ops (pInput (int bx * 256 + int t)) mu))
             (fmul ops (fsub ops (pInput (int bx * 256 + int (t + 128))) mu)
                       (fsub ops (pInput (int bx * 256 + int (t + 128))) mu))]"
    if "bx < 2 ^ 23" "t < 128" for mu
    using that by (simp add: store_sqdev_def value_small)
  show ?thesis
    apply (intro conjI impI; (elim conjE)?)
    subgoal by (rule st)
    subgoal by (rule temp_after_var_eq)
    subgoal by (rule block_var_tree)
    subgoal by (rule block_var_def)
    subgoal by (rule block_var_exact)
    subgoal by (rule spike_var)
    subgoal by (rule spike_single_pass)
    done
qed

theorem variance_two_pass_witness:
  "block_var int_arith 128 spike 0 (replicate 128 0) =
     (\<Sum>i<(256::nat). (spike (int i) - 1) * (spike (int i) - 1)) div 256"
proof -
  have h: "length (replicate 128 (0::int)) = 128" "(0::nat) < 2 ^ 23" by simp_all
  have e: "fadd int_arith = (+)" by (simp add: int_arith_def)
  have "block_var int_arith 128 spike 0 (replicate 128 0) =
            fdiv int_arith (\<Sum>i<256. fmul int_arith
               (fsub int_arith (spike (int 0 * 256 + int i)) (block_mean int_arith 128 spike 0 (replicate 128 0)))
               (fsub int_arith (spike (int 0 * 256 + int i)) (block_mean int_arith 128 spike 0 (replicate 128 0))))
              (fofint int_arith 256)"
    using variance_two_pass[of 0 0 int_arith spike "replicate 128 0" "[]" int_arith
        "replicate 128 0" spike] h e by blast
  then show ?thesis
    by (simp add: spike_mean) (simp add: int_arith_def)
qed

text \<open>
  C6. At position 0 the predicate accepts exactly a float input in linear layout; at the
  output position (the operator has one input and \<open>getNbOutputs\<close> outputs, so position 1) it
  accepts exactly when type and format equal those of position 0; a position the operator
  does not have is rejected. In particular an output type that differs from the input type
  is rejected, and float/linear on both is accepted at both positions.
\<close>

theorem supportsFormatCombination_accepts:
  "(0 \<le> pos \<and> pos < 1 + getNbOutputs this \<longrightarrow>
      fst (supportsFormatCombination w (this, h) pos inOut nbInputs nbOutputs) =
        (if pos = 0 then type (inOut 0) = kFLOAT \<and> format (inOut 0) = kLINEAR
         else type (inOut (nat pos)) = type (inOut 0) \<and> format (inOut (nat pos)) = format (inOut 0)))
   \<and> (pos < 0 \<or> 1 + getNbOutputs this \<le> pos \<longrightarrow>
        \<not> fst (supportsFormatCombination w (this, h) pos inOut nbInputs nbOutputs))
   \<and> (type (inOut 1) \<noteq> type (inOut 0) \<longrightarrow>
        \<not> fst (supportsFormatCombination w (this, h) 1 inOut nbInputs nbOutputs))
   \<and> (type (inOut 0) = kFLOAT \<and> format (inOut 0) = kLINEAR \<and>
      type (inOut 1) = kFLOAT \<and> format (inOut 1) = kLINEAR \<longrightarrow>
        fst (supportsFormatCombination w (this, h) 0 inOut nbInputs nbOutputs) \<and>
        fst (supportsFormatCombination w (this, h) 1 inOut nbInputs nbOutputs))"
proof (cases "pos = 0 \<or> pos = 1")
  case True
  then show ?thesis
    by (auto simp: supportsFormatCombination_def Let_def getNbOutputs_def)
next
  case False
  then have "pos < 0 \<or> 2 \<le> pos" by arith
  with False show ?thesis
    by (auto simp: supportsFormatCombination_def Let_def getNbOutputs_def)
qed

theorem supportsFormatCombination_accepts_witness:
  "fst (supportsFormatCombination id (LayerNormPlugin_new [] 0, ()) 1
         (\<lambda>i. float_linear) 1 1)
   \<and> \<not> fst (supportsFormatCombination id (LayerNormPlugin_new [] 0, ()) 1
         ((\<lambda>i. float_linear)(1 := float_linear\<lparr>type := kHALF\<rparr>)) 1 1)"
  using supportsFormatCombination_accepts[of 1 "LayerNormPlugin_new [] 0" id "()" "\<lambda>i. float_linear" 1 1]
    supportsFormatCombination_accepts[of 1 "LayerNormPlugin_new [] 0" id "()"
       "(\<lambda>i. float_linear)(1 := float_linear\<lparr>type := kHALF\<rparr>)" 1 1]
  by (simp add: getNbOutputs_def float_linear_def)

text \<open>
  C7. Serialising an object and deserialising the buffer gives an object with the same
  Configuration, bit for bit, whatever length is passed; the declared size is \<open>sizeof_m\<close>,
  four bytes, the size of the object representation of the one float; \<open>serialize\<close> writes
  nothing beyond it; and \<open>enqueue\<close> on the deserialised object does what it does on the
  original.
\<close>

theorem serialize_roundtrip:
  "m_member (LayerNormPlugin_deserialize nm (serialize this buffer) len) = m_member this
   \<and> m_member (deserializePlugin nm (serialize this buffer) len) = m_member this
   \<and> getSerializationSize this = sizeof_m \<and> sizeof_m = 4
   \<and> length (object_bytes (m_member this)) = sizeof_m
   \<and> (\<forall>i. getSerializationSize this \<le> i \<longrightarrow> serialize this buffer i = buffer i)
   \<and> enqueue ops driver temp0 (deserializePlugin nm (serialize this buffer) len)
        inputDesc outputDesc inputs0 stream g =
      enqueue ops driver temp0 this inputDesc outputDesc inputs0 stream g"
proof -
  have rt: "m_member (LayerNormPlugin_deserialize nm (serialize this buffer) len) = m_member this"
    using bytes_roundtrip[of "m_member this"]
    by (simp add: LayerNormPlugin_deserialize_def serialize_def sizeof_m_def memcpy_read_4
        memcpy_write_def object_of_bytes_def object_bytes_def)
  have sz: "length (object_bytes (m_member this)) = sizeof_m"
    by (simp add: object_bytes_def sizeof_m_def)
  have frame: "\<forall>i. getSerializationSize this \<le> i \<longrightarrow> serialize this buffer i = buffer i"
    by (simp add: getSerializationSize_def serialize_def memcpy_write_def sz)
  have enq: "enqueue ops driver temp0 (deserializePlugin nm (serialize this buffer) len)
        inputDesc outputDesc inputs0 stream g =
      enqueue ops driver temp0 this inputDesc outputDesc inputs0 stream g"
    using rt by (simp add: enqueue_def deserializePlugin_def)
  show ?thesis
    using rt sz frame enq by (simp add: deserializePlugin_def getSerializationSize_def sizeof_m_def)
qed

theorem serialize_roundtrip_witness:
  "epsilon (m_member (deserializePlugin ''ln''
      (serialize (LayerNormPlugin_new ''ln'' 0x3727C5AC) (\<lambda>i. 0)) 4)) = 0x3727C5AC"
proof -
  have "m_member (deserializePlugin ''ln''
          (serialize (LayerNormPlugin_new ''ln'' 0x3727C5AC) (\<lambda>i. 0)) 4) =
        m_member (LayerNormPlugin_new ''ln'' 0x3727C5AC)"
    using serialize_roundtrip[of "''ln''" "LayerNormPlugin_new ''ln'' 0x3727C5AC" "\<lambda>i. 0" 4
      int_arith rejecting_driver "[]" "\<lambda>i. tensor_desc 3 [2, 3, 256]"
      "\<lambda>i. tensor_desc 3 [2, 3, 256]" "\<lambda>a. 0" 0 idle_gpu]
    by blast
  then show ?thesis by (simp add: LayerNormPlugin_new_def)
qed

text \<open>
  C8. \<open>createPlugin\<close> gives epsilon the bit pattern of \<^verbatim>\<open>1.0e-5f\<close> when no field is named
  "epsilon"; otherwise the float read at the data of the last field of that name (the only
  one, when the names are distinct); the object depends on the collection only through its
  fields named "epsilon"; and the object's name is the name passed.
\<close>

theorem createPlugin_epsilon:
  "((\<forall>i. i < nat (nbFields fc) \<longrightarrow> name (fields_c fc i) \<noteq> ''epsilon'') \<longrightarrow>
      epsilon (m_member (createPlugin nm fc)) = 0x3727C5AC)
   \<and> (k < nat (nbFields fc) \<and> name (fields_c fc k) = ''epsilon'' \<and>
      (\<forall>i. k < i \<and> i < nat (nbFields fc) \<longrightarrow> name (fields_c fc i) \<noteq> ''epsilon'') \<longrightarrow>
      epsilon (m_member (createPlugin nm fc)) =
        float_of_bytes [data (fields_c fc k) 0, data (fields_c fc k) 1,
                        data (fields_c fc k) 2, data (fields_c fc k) 3])
   \<and> (filter (\<lambda>f. name f = ''epsilon'') (map (fields_c fc) [0..<nat (nbFields fc)]) =
      filter (\<lambda>f. name f = ''epsilon'') (map (fields_c fc') [0..<nat (nbFields fc')]) \<longrightarrow>
      createPlugin nm fc = createPlugin nm fc')
   \<and> name_member (createPlugin nm fc) = nm"
proof -
  let ?fs = "map (fields_c fc) [0..<nat (nbFields fc)]"
  let ?P = "\<lambda>f. name f = ''epsilon''"
  have eps: "epsilon (m_member (createPlugin nm fc)) =
     (if filter ?P ?fs = [] then 0x3727C5AC
      else float_of_bytes (memcpy_read (data (last (filter ?P ?fs))) 4))"
    by (simp add: createPlugin_def LayerNormPlugin_new_def createPlugin_fold)
  have a: "epsilon (m_member (createPlugin nm fc)) = 0x3727C5AC"
    if "\<forall>i. i < nat (nbFields fc) \<longrightarrow> name (fields_c fc i) \<noteq> ''epsilon''"
  proof -
    have "filter ?P ?fs = []" using that by (auto simp: filter_empty_conv)
    then show ?thesis by (simp add: eps)
  qed
  have b: "epsilon (m_member (createPlugin nm fc)) =
        float_of_bytes [data (fields_c fc k) 0, data (fields_c fc k) 1,
                        data (fields_c fc k) 2, data (fields_c fc k) 3]"
    if k: "k < nat (nbFields fc)" "name (fields_c fc k) = ''epsilon''"
      and later: "\<forall>i. k < i \<and> i < nat (nbFields fc) \<longrightarrow> name (fields_c fc i) \<noteq> ''epsilon''"
  proof -
    let ?n = "nat (nbFields fc)"
    have split: "[0..<?n] = [0..<k] @ [k] @ [Suc k..<?n]"
      using k(1) by (metis Suc_leI append_Cons append_Nil le0 upt_add_eq_append upt_conv_Cons
          le_add_diff_inverse less_imp_le_nat)
    have "filter ?P (map (fields_c fc) [Suc k..<?n]) = []"
      using later by (auto simp: filter_empty_conv)
    then have "filter ?P ?fs = filter ?P (map (fields_c fc) [0..<k]) @ [fields_c fc k]"
      using k(2) by (simp add: split)
    then show ?thesis
      by (simp add: eps memcpy_read_4)
  qed
  have c: "createPlugin nm fc = createPlugin nm fc'"
    if "filter ?P ?fs = filter ?P (map (fields_c fc') [0..<nat (nbFields fc')])"
    using that by (simp add: createPlugin_def createPlugin_fold)
  have d': "name_member (createPlugin nm fc) = nm"
    by (simp add: createPlugin_def LayerNormPlugin_new_def)
  from a b c d' show ?thesis by blast
qed

theorem createPlugin_epsilon_witness:
  "epsilon (m_member (createPlugin ''ln''
      (collection_of [field_of ''epsilon'' [0, 0, 0x80, 0x3F], field_of ''axis'' [1, 0, 0, 0]]))) =
     0x3F800000
   \<and> epsilon (m_member (createPlugin ''ln'' (collection_of [field_of ''axis'' [1, 0, 0, 0]]))) =
     0x3727C5AC"
proof -
  let ?fc = "collection_of [field_of ''epsilon'' [0, 0, 0x80, 0x3F], field_of ''axis'' [1, 0, 0, 0]]"
  let ?fc' = "collection_of [field_of ''axis'' [1, 0, 0, 0]]"
  have 1: "0 < nat (nbFields ?fc) \<and> name (fields_c ?fc 0) = ''epsilon'' \<and>
      (\<forall>i. 0 < i \<and> i < nat (nbFields ?fc) \<longrightarrow> name (fields_c ?fc i) \<noteq> ''epsilon'')"
    by (auto simp: collection_of_def field_of_def less_Suc_eq)
  have 2: "\<forall>i. i < nat (nbFields ?fc') \<longrightarrow> name (fields_c ?fc' i) \<noteq> ''epsilon''"
    by (simp add: collection_of_def field_of_def)
  have 3: "float_of_bytes [data (fields_c ?fc 0) 0, data (fields_c ?fc 0) 1,
                        data (fields_c ?fc 0) 2, data (fields_c ?fc 0) 3] = 0x3F800000"
    by (simp add: collection_of_def field_of_def float_of_bytes_def)
  from createPlugin_epsilon[of ?fc "''ln''" 0 ?fc] createPlugin_epsilon[of ?fc' "''ln''" 0 ?fc'] 1 2 3
  show ?thesis by simp
qed

text \<open>
  C9. \<open>supportsFormatCombination\<close> leaves the object as it was, changes nothing of the host's
  state but what the tracing macro does, gives the same answer when it is called again on the
  state it left, and its answer is a function of the position and the descriptors at positions
  0 and 1 alone.
\<close>

theorem supportsFormatCombination_pure:
  "snd (supportsFormatCombination w (this, h) pos inOut nbInputs nbOutputs) = (this, w h)
   \<and> fst (supportsFormatCombination w
            (snd (supportsFormatCombination w (this, h) pos inOut nbInputs nbOutputs))
            pos inOut nbInputs nbOutputs) =
       fst (supportsFormatCombination w (this, h) pos inOut nbInputs nbOutputs)
   \<and> (inOut 0 = inOut' 0 \<and> inOut 1 = inOut' 1 \<longrightarrow>
        fst (supportsFormatCombination w (this, h) pos inOut nbInputs nbOutputs) =
        fst (supportsFormatCombination w' (this', h') pos inOut' nbInputs' nbOutputs'))"
  by (simp add: supportsFormatCombination_def Let_def)

theorem supportsFormatCombination_pure_witness:
  "fst (supportsFormatCombination id (LayerNormPlugin_new [] 0, ()) 1 (\<lambda>i. float_linear) 1 1) =
   fst (supportsFormatCombination (\<lambda>n. Suc n) (LayerNormPlugin_new ''x'' 1, 5::nat) 1
          ((\<lambda>i. float_linear)(2 := float_linear\<lparr>type := kHALF\<rparr>)) 7 9)"
  using supportsFormatCombination_pure[of id "LayerNormPlugin_new [] 0" "()" 1 "\<lambda>i. float_linear" 1 1
      "(\<lambda>i. float_linear)(2 := float_linear\<lparr>type := kHALF\<rparr>)" "\<lambda>n. Suc n"
      "LayerNormPlugin_new ''x'' 1" "5::nat" 7 9]
  by simp

text \<open>
  C10. The deserialising constructor, and \<open>deserializePlugin\<close> with it, copies the
  \<open>sizeof_m\<close> bytes at the start of the buffer into \<^verbatim>\<open>m_\<close> and reads nothing else: the object
  \<open>deserializePlugin\<close> returns has the name passed, an empty namespace and the Configuration
  whose bytes are the first four of the buffer; the length argument has no influence, and
  two buffers that agree on these bytes give the same object.
\<close>

theorem deserialize_ignores_length:
  "m_member (LayerNormPlugin_deserialize nm buffer len) =
     object_of_bytes [buffer 0, buffer 1, buffer 2, buffer 3]
   \<and> LayerNormPlugin_deserialize nm buffer len = LayerNormPlugin_deserialize nm buffer len'
   \<and> deserializePlugin nm buffer len = deserializePlugin nm buffer len'
   \<and> ((\<forall>i. i < sizeof_m \<longrightarrow> buffer i = buffer' i) \<longrightarrow>
        LayerNormPlugin_deserialize nm buffer len = LayerNormPlugin_deserialize nm buffer' len' \<and>
        deserializePlugin nm buffer len = deserializePlugin nm buffer' len')
   \<and> deserializePlugin nm buffer len =
        \<lparr>name_member = nm, namespace_member = [],
         m_member = object_of_bytes [buffer 0, buffer 1, buffer 2, buffer 3]\<rparr>
   \<and> m_member (deserializePlugin nm buffer len) =
        object_of_bytes (map buffer [0..<sizeof_m])
   \<and> epsilon (m_member (deserializePlugin nm buffer len)) =
        float_of_bytes [buffer 0, buffer 1, buffer 2, buffer 3]"
proof -
  have rd: "map buffer [0..<sizeof_m] = [buffer 0, buffer 1, buffer 2, buffer 3]"
    using memcpy_read_4[of buffer] by (simp add: memcpy_read_def sizeof_m_def)
  show ?thesis
    unfolding rd
    by (simp add: deserializePlugin_def LayerNormPlugin_deserialize_def sizeof_m_def memcpy_read_4
        object_of_bytes_def)
qed

theorem deserialize_ignores_length_witness:
  "deserializePlugin ''ln'' (\<lambda>i. if i < 4 then [0xAC, 0xC5, 0x27, 0x37] ! i else 0) 4 =
   deserializePlugin ''ln'' (\<lambda>i. if i < 4 then [0xAC, 0xC5, 0x27, 0x37] ! i else 0xFF) 0
   \<and> deserializePlugin ''ln'' (\<lambda>i. if i < 4 then [0xAC, 0xC5, 0x27, 0x37] ! i else 0xFF) 0 =
       \<lparr>name_member = ''ln'', namespace_member = [], m_member = \<lparr>epsilon = 0x3727C5AC\<rparr>\<rparr>"
proof -
  let ?b = "\<lambda>i. if i < 4 then [0xAC, 0xC5, 0x27, 0x37] ! i else (0::byte)"
  let ?b' = "\<lambda>i. if i < 4 then [0xAC, 0xC5, 0x27, 0x37] ! i else (0xFF::byte)"
  have agree: "\<forall>i. i < sizeof_m \<longrightarrow> ?b i = ?b' i"
    by (simp add: sizeof_m_def)
  have 1: "deserializePlugin ''ln'' ?b 4 = deserializePlugin ''ln'' ?b' 0"
    using deserialize_ignores_length[of "''ln''" ?b 4 0 ?b'] agree by blast
  have 2: "deserializePlugin ''ln'' ?b' 0 =
        \<lparr>name_member = ''ln'', namespace_member = [],
         m_member = object_of_bytes [?b' 0, ?b' 1, ?b' 2, ?b' 3]\<rparr>"
    using deserialize_ignores_length[of "''ln''" ?b' 0 0 ?b'] by blast
  have 3: "object_of_bytes [?b' 0, ?b' 1, ?b' 2, ?b' 3] = \<lparr>epsilon = 0x3727C5AC\<rparr>"
    by (simp add: object_of_bytes_def float_of_bytes_def)
  from 1 2 3 show ?thesis by (simp only: )
qed

end
